theory Spec2Isabelle
  imports Main
begin

section \<open>Python strings\<close>

text \<open>
  A Python \<open>str\<close> is modelled as a \<open>string\<close>, one \<open>char\<close> per code point, which covers
  the code points below 256. \<open>is_space\<close> is \<open>str.isspace\<close> on one such code point,
  \<open>strip\<close> is \<open>str.strip()\<close>, \<open>lower\<close> is \<open>str.lower()\<close> (the upper-case letters below
  256 are A-Z and the Latin-1 letters 192-222 without 215; their lower-case partner is 32
  above, which is bit 5 set) and \<open>startswith\<close> is \<open>str.startswith\<close>.
\<close>

definition is_space :: "char \<Rightarrow> bool" where
  "is_space c =
     (let n = (of_char c :: nat)
      in (9 \<le> n \<and> n \<le> 13) \<or> (28 \<le> n \<and> n \<le> 32) \<or> n = 133 \<or> n = 160)"

definition strip :: "string \<Rightarrow> string" where
  "strip s = rev (dropWhile is_space (rev (dropWhile is_space s)))"

definition is_upper :: "char \<Rightarrow> bool" where
  "is_upper c =
     (let n = (of_char c :: nat)
      in (65 \<le> n \<and> n \<le> 90) \<or> (192 \<le> n \<and> n \<le> 222 \<and> n \<noteq> 215))"

definition lower_char :: "char \<Rightarrow> char" where
  "lower_char c =
     (if is_upper c
      then Char (digit0 c) (digit1 c) (digit2 c) (digit3 c) (digit4 c) True (digit6 c) (digit7 c)
      else c)"

definition lower :: "string \<Rightarrow> string" where
  "lower s = map lower_char s"

definition startswith :: "string \<Rightarrow> string \<Rightarrow> bool" where
  "startswith s p = (take (length p) s = p)"

text \<open>
  \<open>split_max c n s\<close> is \<open>s.split(c, n)\<close>: at most \<open>n\<close> cuts, from the left.
  \<open>split_all\<close> is \<open>s.split(c)\<close> (a string has fewer separators than characters plus one)
  and \<open>rsplit c n s\<close> is \<open>s.rsplit(c, n)\<close>: at most \<open>n\<close> cuts, from the right.
\<close>

fun split_max :: "char \<Rightarrow> nat \<Rightarrow> string \<Rightarrow> string list" where
  "split_max c 0 s = [s]"
| "split_max c (Suc n) s =
     (case dropWhile (\<lambda>x. x \<noteq> c) s of
        [] \<Rightarrow> [s]
      | _ # rest \<Rightarrow> takeWhile (\<lambda>x. x \<noteq> c) s # split_max c n rest)"

definition split_all :: "char \<Rightarrow> string \<Rightarrow> string list" where
  "split_all c s = split_max c (length s) s"

definition rsplit :: "char \<Rightarrow> nat \<Rightarrow> string \<Rightarrow> string list" where
  "rsplit c n s = rev (map rev (split_max c n (rev s)))"

fun join :: "string \<Rightarrow> string list \<Rightarrow> string" where
  "join sep [] = []"
| "join sep [x] = x"
| "join sep (x # y # ys) = x @ sep @ join sep (y # ys)"

section \<open>Exceptions, devices and the observable trace\<close>

text \<open>
  The exceptions the script raises or handles. \<open>OtherException\<close> stands for every
  exception class the script names nowhere (a transport error of the device library,
  for instance).
\<close>

datatype exn =
    ResetException string
  | SetupException string
  | AttributeError string
  | KeyError string
  | TypeError string
  | ValueError string
  | FileNotFoundError
  | CalledProcessError
  | OtherException string

text \<open>
  The result of a remote action is a dictionary from response tags to their text; the
  text of an empty element is Python's \<open>None\<close>. Dictionaries that are iterated are
  association lists in insertion order, looked up with \<open>map_of\<close>.
\<close>

type_synonym result = "(string \<times> string option) list"

record device =
  dev_name :: string
  dev_udn :: string
  dev_host :: string
  dev_services :: "(string \<times> (string \<times> (exn + result)) list) list"
  dev_network_status :: "exn + string"

datatype level = DEBUG | INFO | WARNING | ERROR | CRITICAL

datatype arg = S string | V "string option" | R result | D device | N nat | X exn

text \<open>
  What a run does that can be observed, in order: the calls of the logger (format string
  and arguments, whatever level the handler shows), the prompts, the subprocesses and
  the device operations. A device operation is recorded with whether it returned.
\<close>

datatype event =
    Log level string "arg list"
  | Confirm string
  | Getpass
  | Sleep
  | Run "string list"
  | Reset device bool bool bool
  | Setup device string string bool
  | ChangeFriendlyName device string bool

record completed =
  returncode :: int
  stdout :: string
  stderr :: string

text \<open>
  Everything outside the script: the terminal, the clock, the devices that
  \<open>pywemo.discover_devices()\<close> returns (on the network the host is on when the command
  starts, \<open>None\<close>, or after it joined an access point), \<open>nmcli\<close>, the user's answers and
  what each device operation does.
\<close>

record world =
  columns :: nat
  date_time :: string
  platinfo :: string
  cwd :: string
  discover_devices :: "string option \<Rightarrow> device list"
  nmcli_installed :: bool
  nmcli :: "string list \<Rightarrow> completed"
  confirm :: bool
  getpass :: string
  reset_outcome :: "device \<Rightarrow> bool \<Rightarrow> bool \<Rightarrow> exn + unit"
  setup_outcome :: "device \<Rightarrow> string \<Rightarrow> string \<Rightarrow> exn + unit"
  rename_outcome :: "device \<Rightarrow> string \<Rightarrow> exn + unit"

text \<open>A computation: the trace it leaves and either the exception it raises or its value.\<close>

type_synonym 'a run = "event list \<times> (exn + 'a)"

definition ret :: "'a \<Rightarrow> 'a run" where
  "ret x = ([], Inr x)"

definition raise :: "exn \<Rightarrow> 'a run" where
  "raise exc = ([], Inl exc)"

definition emit :: "event list \<Rightarrow> unit run" where
  "emit t = (t, Inr ())"

definition bind :: "'a run \<Rightarrow> ('a \<Rightarrow> 'b run) \<Rightarrow> 'b run" where
  "bind m f =
     (case m of
        (t, Inl e) \<Rightarrow> (t, Inl e)
      | (t, Inr a) \<Rightarrow> (case f a of (t', r) \<Rightarrow> (t @ t', r)))"

definition DASHES :: "world \<Rightarrow> string" where
  "DASHES w = replicate (columns w - 11) CHR ''-''"

section \<open>setup_logger\<close>

definition setup_logger :: "world \<Rightarrow> nat \<Rightarrow> event list" where
  "setup_logger w verbose =
     [Log DEBUG ''logging started:  %s'' [S (date_time w)],
      Log DEBUG ''platform:  %s'' [S (platinfo w)],
      Log DEBUG ''current directory:  %s'' [S (cwd w)]]
     @ (if verbose > 2
        then [Log DEBUG ''logging to file:  %s'' [S (cwd w @ ''/wemo_reset_setup.log'')]]
        else [])"

section \<open>log_details\<close>

definition data_to_print :: "device \<Rightarrow> nat \<Rightarrow> (string \<times> string \<times> string option) list" where
  "data_to_print device verbose =
     (if verbose = 0 then
        [(''basicevent'', ''GetFriendlyName'', Some ''FriendlyName''),
         (''basicevent'', ''GetMacAddr'', None),
         (''metainfo'', ''GetMetaInfo'', Some ''MetaInfo'')]
      else if verbose = 1 then
        [(''basicevent'', ''GetFriendlyName'', Some ''FriendlyName''),
         (''basicevent'', ''GetSignalStrength'', Some ''SignalStrength''),
         (''basicevent'', ''GetMacAddr'', None),
         (''firmwareupdate'', ''GetFirmwareVersion'', Some ''FirmwareVersion''),
         (''metainfo'', ''GetMetaInfo'', Some ''MetaInfo''),
         (''metainfo'', ''GetExtMetaInfo'', Some ''ExtMetaInfo''),
         (''deviceinfo'', ''GetDeviceInformation'', Some ''DeviceInformation'')]
      else
        (let skip_actions = (if verbose = 2 then [''getaplist'', ''getnetworklist''] else [])
         in concat (map (\<lambda>(service_name, actions).
              concat (map (\<lambda>(action_name, _).
                if lower action_name \<in> set skip_actions then []
                else if startswith (lower action_name) ''get''
                     then [(service_name, action_name, None)]
                     else []) actions)) (dev_services device))))"

text \<open>\<open>device.services[service_name].actions[action_name]()\<close>\<close>

definition call_action :: "device \<Rightarrow> string \<Rightarrow> string \<Rightarrow> exn + result" where
  "call_action device service_name action_name =
     (case map_of (dev_services device) service_name of
        None \<Rightarrow> Inl (KeyError service_name)
      | Some actions \<Rightarrow>
          (case map_of actions action_name of
             None \<Rightarrow> Inl (KeyError action_name)
           | Some outcome \<Rightarrow> outcome))"

text \<open>The exceptions of \<open>except (AttributeError, KeyError, TypeError)\<close>.\<close>

fun caught_by_log_details :: "exn \<Rightarrow> bool" where
  "caught_by_log_details (AttributeError _) = True"
| "caught_by_log_details (KeyError _) = True"
| "caught_by_log_details (TypeError _) = True"
| "caught_by_log_details _ = False"

text \<open>
  One turn of the loop over \<open>data_to_print\<close>: the line it logs at once, or the entry it
  appends to \<open>failed_calls\<close>, or the exception that leaves the loop.
\<close>

datatype diag = Logged event | Failed string result

definition failed_to_get :: "string \<Rightarrow> exn \<Rightarrow> event" where
  "failed_to_get name exc =
     Log WARNING ''    %60s: %s'' [S (''Failed to get result for s'' @ name), X exc]"

definition show_key :: "string option \<Rightarrow> string" where
  "show_key key = (case key of None \<Rightarrow> ''None'' | Some k \<Rightarrow> k)"

definition print_result :: "string \<Rightarrow> string \<Rightarrow> string option \<Rightarrow> result \<Rightarrow> event" where
  "print_result service_name action_name key result =
     (let name = service_name @ ''.'' @ action_name @ ''['' @ show_key key @ '']''
      in case key of
           None \<Rightarrow> Log INFO ''    %60s: %s'' [S name, R result]
         | Some k \<Rightarrow>
             (case map_of result k of
                None \<Rightarrow> Log INFO ''    %60s: %s'' [S name, R result]
              | Some v \<Rightarrow> Log INFO ''    %60s: %s'' [S name, V v]))"

definition diag_call :: "device \<Rightarrow> string \<times> string \<times> string option \<Rightarrow> exn + diag" where
  "diag_call device item =
     (case item of (service_name, action_name, key) \<Rightarrow>
       (let name = service_name @ ''.'' @ action_name;
            attempt =
              (case call_action device service_name action_name of
                 Inl exc \<Rightarrow> Inl exc
               | Inr result \<Rightarrow>
                   (case map_of result ''faultstring'' of
                      None \<Rightarrow> Inr (Logged (print_result service_name action_name key result))
                    | Some None \<Rightarrow>
                        Inl (AttributeError ''NoneType object has no attribute lower'')
                    | Some (Some faultstring) \<Rightarrow>
                        if lower faultstring = ''upnperror''
                        then Inr (Failed name result)
                        else Inr (Logged (print_result service_name action_name key result))))
        in case attempt of
             Inl exc \<Rightarrow>
               if caught_by_log_details exc then Inr (Logged (failed_to_get name exc))
               else Inl exc
           | Inr d \<Rightarrow> Inr d))"

text \<open>
  The loop: the trace of the lines logged at once, and \<open>failed_calls\<close> at its end.
\<close>

fun log_calls ::
  "device \<Rightarrow> (string \<times> string \<times> string option) list \<Rightarrow> (string \<times> result) list
   \<Rightarrow> (string \<times> result) list run" where
  "log_calls device [] failed_calls = ([], Inr failed_calls)"
| "log_calls device (item # items) failed_calls =
     (case diag_call device item of
        Inl exc \<Rightarrow> ([], Inl exc)
      | Inr (Failed name result) \<Rightarrow> log_calls device items (failed_calls @ [(name, result)])
      | Inr (Logged ev) \<Rightarrow>
          (case log_calls device items failed_calls of (t, r) \<Rightarrow> (ev # t, r)))"

definition failed_header :: event where
  "failed_header =
     Log WARNING
       (''    The results below resulted in an error.  This may be due to ''
        @ ''the action no longer working or that the method requires an ''
        @ ''argument.'') []"

definition failed_section :: "(string \<times> result) list \<Rightarrow> event list" where
  "failed_section failed_calls =
     (if failed_calls \<noteq> [] then [failed_header] else [])
     @ map (\<lambda>(name, result). Log INFO ''    %60s: %s'' [S name, R result]) failed_calls"

definition log_details :: "device \<Rightarrow> nat \<Rightarrow> unit run" where
  "log_details device verbose =
     bind (log_calls device (data_to_print device verbose) [])
       (\<lambda>failed_calls. (failed_section failed_calls, Inr ()))"

section \<open>discover_and_log_devices\<close>

text \<open>
  \<open>net\<close> is the access point the command joined before it discovers, if any.
  The first function is the loop with \<open>only_needing_setup\<close>, which returns \<open>not_setup\<close>;
  the second is the loop without it.
\<close>

fun needing_setup :: "device list \<Rightarrow> device list run" where
  "needing_setup [] = ([], Inr [])"
| "needing_setup (device # devices) =
     (case dev_network_status device of
        Inl exc \<Rightarrow> ([], Inl exc)
      | Inr status \<Rightarrow>
          (if status \<noteq> ''1''
           then bind ([Log INFO ''found device needing setup: %s'' [D device]], Inr ())
                  (\<lambda>_. bind (needing_setup devices) (\<lambda>not_setup. ([], Inr (device # not_setup))))
           else needing_setup devices))"

fun log_found :: "world \<Rightarrow> nat \<Rightarrow> device list \<Rightarrow> unit run" where
  "log_found w verbose [] = ([], Inr ())"
| "log_found w verbose (device # devices) =
     bind ([Log INFO (DASHES w) [], Log INFO ''found device: %s'' [D device]], Inr ())
       (\<lambda>_. bind (log_details device verbose) (\<lambda>_. log_found w verbose devices))"

definition discover_and_log_devices ::
  "world \<Rightarrow> string option \<Rightarrow> bool \<Rightarrow> nat \<Rightarrow> device list run" where
  "discover_and_log_devices w net only_needing_setup verbose =
     (let devices = discover_devices w net
      in if only_needing_setup then needing_setup devices
         else bind (log_found w verbose devices)
                (\<lambda>_. ((if devices \<noteq> [] then [Log INFO (DASHES w) []] else [])
                       @ [Log INFO ''found %s devices'' [N (length devices)]],
                      Inr devices)))"

section \<open>find_wemo_aps\<close>

text \<open>
  \<open>subprocess.run(args, check=check)\<close> of an \<open>nmcli\<close> command: \<open>FileNotFoundError\<close> when
  the tool is not installed, \<open>CalledProcessError\<close> when \<open>check\<close> is set and the exit
  status is not zero. The world gives the completed process of an argument list.
\<close>

definition subprocess_run :: "world \<Rightarrow> string list \<Rightarrow> bool \<Rightarrow> completed run" where
  "subprocess_run w args check =
     ([Run args],
      if \<not> nmcli_installed w then Inl FileNotFoundError
      else if check \<and> returncode (nmcli w args) \<noteq> 0 then Inl CalledProcessError
      else Inr (nmcli w args))"

text \<open>
  The two handlers around the \<open>nmcli\<close> calls. In the handler of \<open>CalledProcessError\<close> the
  name \<open>networks\<close> is not bound yet (the call that would bind it raised), so both
  \<open>LOG.error\<close> lines end in the \<open>UnboundLocalError\<close> that is passed over, and nothing
  is logged.
\<close>

definition nmcli_failed :: "string \<Rightarrow> exn \<Rightarrow> exn" where
  "nmcli_failed called_process_message exc =
     (case exc of
        FileNotFoundError \<Rightarrow>
          SetupException ''nmcli command failed (NetworkManager must be installed)''
      | CalledProcessError \<Rightarrow> SetupException called_process_message
      | _ \<Rightarrow> exc)"

definition result_of :: "string list \<Rightarrow> completed \<Rightarrow> event" where
  "result_of args networks =
     Log DEBUG (''result of '' @ [CHR 0x22] @ ''%s'' @ [CHR 0x22] @ '':'' @ [CHR 0x0A]
                @ ''stdout:'' @ [CHR 0x0A] @ ''%s'')
       [S (join '' '' args), S (strip (stdout networks))]"

definition is_wemo_ssid :: "string \<Rightarrow> bool" where
  "is_wemo_ssid ssid = startswith (lower ssid) ''wemo.''"

text \<open>
  The loop over the lines of the listing, with \<open>wemo_networks\<close> and \<open>current_network\<close>
  as they are before the line. A line that \<open>rsplit\<close> cuts into fewer than five parts
  fails the unpacking.
\<close>

fun scan_lines :: "string list \<Rightarrow> string list \<Rightarrow> string \<Rightarrow> (string list \<times> string) run" where
  "scan_lines [] wemo_networks current_network = ret (wemo_networks, current_network)"
| "scan_lines (line # lines) wemo_networks current_network =
     (if strip line = [] then scan_lines lines wemo_networks current_network
      else
        (case rsplit CHR '':'' 4 line of
           [ssid, in_use, channel, signal, security] \<Rightarrow>
             bind (emit
                ((if in_use = ''*''
                  then [Log DEBUG ''current network: %s (channel=%s, signal=%s, security=%s)''
                          [S ssid, S channel, S signal, S security]]
                  else [])
                 @ (if is_wemo_ssid ssid
                    then [Log INFO ''expected wemo ap: %s (channel=%s, signal=%s, security=%s)''
                            [S ssid, S channel, S signal, S security]]
                    else [])))
               (\<lambda>_. scan_lines lines
                  (if is_wemo_ssid ssid then wemo_networks @ [ssid] else wemo_networks)
                  (if in_use = ''*''
                   then (if current_network \<noteq> [] then current_network else ssid)
                   else current_network))
         | _ \<Rightarrow> raise (ValueError ''not enough values to unpack (expected 5)'')))"

definition list_args :: "string list" where
  "list_args =
     [''nmcli'', ''--get-values'', ''SSID,IN-USE,CHAN,SIGNAL,SECURITY'', ''device'', ''wifi'']"

definition find_wemo_aps :: "world \<Rightarrow> (string list \<times> string) run" where
  "find_wemo_aps w =
     (case bind (subprocess_run w [''nmcli'', ''device'', ''wifi'', ''rescan''] False)
             (\<lambda>_. subprocess_run w list_args True) of
        (t, Inl exc) \<Rightarrow> (t, Inl (nmcli_failed ''nmcli command failed'' exc))
      | (t, Inr networks) \<Rightarrow>
          bind (t, Inr ())
            (\<lambda>_. bind (emit ([result_of list_args networks]
                         @ (if strip (stdout networks) = []
                            then [Log WARNING ''no result from nmcli, try again'' []]
                            else [])))
              (\<lambda>_. scan_lines (split_all (CHR 0x0A) (strip (stdout networks))) [] [])))"

section \<open>connect_to_wemo_and_setup\<close>

fun setup_devices :: "world \<Rightarrow> string \<Rightarrow> string \<Rightarrow> device list \<Rightarrow> unit run" where
  "setup_devices w ssid password [] = ret ()"
| "setup_devices w ssid password (device # devices) =
     (case setup_outcome w device ssid password of
        Inl exc \<Rightarrow> ([Setup device ssid password False], Inl exc)
      | Inr _ \<Rightarrow>
          bind (emit [Setup device ssid password True])
            (\<lambda>_. setup_devices w ssid password devices))"

definition connect_to_wemo_and_setup :: "world \<Rightarrow> string \<Rightarrow> string \<Rightarrow> string \<Rightarrow> unit run" where
  "connect_to_wemo_and_setup w wemossid ssid password =
     (let args = [''nmcli'', ''device'', ''wifi'', ''connect'', wemossid]
      in case subprocess_run w args True of
           (t, Inl exc) \<Rightarrow>
             (t, Inl (nmcli_failed
                (''nmcli command failed (network may not exist anymore or may no ''
                 @ ''longer be reachable)'') exc))
         | (t, Inr networks) \<Rightarrow>
             bind (emit (t @ [result_of args networks, Sleep,
                              Log INFO ''searching %s for wemo devices'' [S wemossid]]))
               (\<lambda>_. bind (discover_and_log_devices w (Some wemossid) True 0)
                  (\<lambda>devices. setup_devices w ssid password devices)))"

section \<open>The list command\<close>


section \<open>The rename command\<close>

text \<open>
  The file is given by the rows that \<open>csv.reader\<close> yields after the header line. One
  row changes \<open>udn_to_name\<close> and \<open>ip_to_name\<close>, or fails the unpacking into three names.
\<close>

type_synonym names = "(string \<rightharpoonup> string) \<times> (string \<rightharpoonup> string)"

definition read_row :: "string list \<Rightarrow> names \<Rightarrow> exn + names" where
  "read_row row maps =
     (case maps of (udn_to_name, ip_to_name) \<Rightarrow>
       (if row = [] \<or> length row < 3 \<or> startswith (hd row) ''#'' then Inr maps
        else
          (case map strip row of
             [udn, ip, name] \<Rightarrow>
               (if name = [] then Inr maps
                else Inr ((if udn \<noteq> [] then udn_to_name(udn \<mapsto> name) else udn_to_name),
                          (if ip \<noteq> [] then ip_to_name(ip \<mapsto> name) else ip_to_name)))
           | _ \<Rightarrow> Inl (ValueError ''too many values to unpack (expected 3)''))))"

fun read_rows :: "string list list \<Rightarrow> names \<Rightarrow> exn + names" where
  "read_rows [] maps = Inr maps"
| "read_rows (row # rows) maps =
     (case read_row row maps of
        Inl exc \<Rightarrow> Inl exc
      | Inr maps' \<Rightarrow> read_rows rows maps')"

text \<open>The two \<open>get\<close> calls: by IP first, then by UDN with the IP's name as default.\<close>

definition new_name :: "names \<Rightarrow> device \<Rightarrow> string" where
  "new_name maps device =
     (case maps of (udn_to_name, ip_to_name) \<Rightarrow>
       (let name = (case ip_to_name (dev_host device) of None \<Rightarrow> [] | Some n \<Rightarrow> n)
        in case udn_to_name (dev_udn device) of None \<Rightarrow> name | Some n \<Rightarrow> n))"

fun rename_devices :: "world \<Rightarrow> names \<Rightarrow> device list \<Rightarrow> unit run" where
  "rename_devices w maps [] = ret ()"
| "rename_devices w maps (device # devices) =
     (let name = new_name maps device
      in if name \<noteq> [] then
           (case rename_outcome w device name of
              Inl exc \<Rightarrow>
                ([Log INFO ''changing %s name to: %s'' [D device, S name],
                  ChangeFriendlyName device name False], Inl exc)
            | Inr _ \<Rightarrow>
                bind (emit [Log INFO ''changing %s name to: %s'' [D device, S name],
                            ChangeFriendlyName device name True])
                  (\<lambda>_. rename_devices w maps devices))
         else
           bind (emit [Log INFO
                   (''no name found for device %s with UDN='' @ [CHR 0x22] @ ''%s'' @ [CHR 0x22]
                    @ '' and IP='' @ [CHR 0x22] @ ''%s'' @ [CHR 0x22])
                   [D device, S (dev_udn device), S (dev_host device)]])
             (\<lambda>_. rename_devices w maps devices))"

definition wemo_rename :: "world \<Rightarrow> nat \<Rightarrow> string list list \<Rightarrow> unit run" where
  "wemo_rename w verbose rows =
     bind (emit (setup_logger w verbose))
       (\<lambda>_. case read_rows rows (Map.empty, Map.empty) of
               Inl exc \<Rightarrow> raise exc
             | Inr maps \<Rightarrow>
                 bind (discover_and_log_devices w None False 0)
                   (\<lambda>devices. rename_devices w maps devices))"

section \<open>The reset command\<close>

text \<open>\<open>str\<close> of a length, for the f-strings of the prompts.\<close>

fun str_nat :: "nat \<Rightarrow> string" where
  "str_nat n =
     (if n < 10 then [''0123456789'' ! n]
      else str_nat (n div 10) @ [''0123456789'' ! (n mod 10)])"

text \<open>
  The loop of the single-device modes: the first device whose name is the wanted one
  when both are lower-cased, and \<open>None\<close> when the loop ends without \<open>break\<close>.
\<close>

fun select_device :: "string \<Rightarrow> device list \<Rightarrow> device option" where
  "select_device name [] = None"
| "select_device name (device # devices) =
     (if lower (dev_name device) = lower name then Some device
      else select_device name devices)"

definition not_found :: "string \<Rightarrow> string" where
  "not_found name = ''device named '' @ [CHR 0x22] @ name @ [CHR 0x22] @ '' not found''"

fun reset_devices :: "world \<Rightarrow> bool \<Rightarrow> bool \<Rightarrow> device list \<Rightarrow> unit run" where
  "reset_devices w data wifi [] = ret ()"
| "reset_devices w data wifi (device # devices) =
     (case reset_outcome w device data wifi of
        Inr _ \<Rightarrow>
          bind (emit [Log INFO (DASHES w) [], Reset device data wifi True])
            (\<lambda>_. reset_devices w data wifi devices)
      | Inl (ResetException msg) \<Rightarrow>
          bind (emit [Log INFO (DASHES w) [], Reset device data wifi False,
                      Log ERROR msg [], Log ERROR ''|-- thus skipping: %s'' [D device]])
            (\<lambda>_. reset_devices w data wifi devices)
      | Inl exc \<Rightarrow> ([Log INFO (DASHES w) [], Reset device data wifi False], Inl exc))"

definition reset_one :: "world \<Rightarrow> bool \<Rightarrow> bool \<Rightarrow> device \<Rightarrow> unit run" where
  "reset_one w data wifi device =
     (case reset_outcome w device data wifi of
        Inr _ \<Rightarrow> emit [Reset device data wifi True]
      | Inl exc \<Rightarrow> ([Reset device data wifi False], Inl exc))"

text \<open>The body of the \<open>try\<close> statement of \<open>click_wemo_reset\<close>.\<close>

definition reset_body ::
  "world \<Rightarrow> bool \<Rightarrow> bool \<Rightarrow> bool \<Rightarrow> string option \<Rightarrow> unit run" where
  "reset_body w data wifi reset_all name =
     bind
       (if reset_all then
          bind (discover_and_log_devices w None False 0)
            (\<lambda>devices.
               bind (emit (if name \<noteq> None
                           then [Log WARNING
                                   ''name %s ignored, all discovered devices will be reset'' []]
                           else []))
                 (\<lambda>_. if devices = [] then ret ()
                       else bind ([Confirm (''Are you sure you want to reset all ''
                                            @ str_nat (length devices)
                                            @ '' devices listed above?'')], Inr (confirm w))
                              (\<lambda>yes. if yes
                                      then bind (reset_devices w data wifi devices)
                                             (\<lambda>_. emit [Log INFO (DASHES w) []])
                                      else ret ())))
        else
          (case name of
             Some n \<Rightarrow>
               bind (discover_and_log_devices w None False 0)
                 (\<lambda>devices.
                    case select_device n devices of
                      None \<Rightarrow> raise (ResetException (not_found n))
                    | Some selected \<Rightarrow> reset_one w data wifi selected)
           | None \<Rightarrow> raise (ResetException ''--reset-all or --name=<str> is required'')))
       (\<lambda>_. emit [Log INFO ''devices will take approximately 90 seconds to reset'' []])"

definition click_wemo_reset ::
  "world \<Rightarrow> nat \<Rightarrow> bool \<Rightarrow> bool \<Rightarrow> bool \<Rightarrow> bool \<Rightarrow> string option \<Rightarrow> unit run" where
  "click_wemo_reset w verbose data wifi full reset_all name =
     bind (emit (setup_logger w verbose))
       (\<lambda>_. case reset_body w (full \<or> data) (full \<or> wifi) reset_all name of
               (t, Inl (ResetException msg)) \<Rightarrow> (t @ [Log CRITICAL msg []], Inr ())
             | r \<Rightarrow> r)"

section \<open>The setup command\<close>

fun setup_aps :: "world \<Rightarrow> string \<Rightarrow> string \<Rightarrow> string list \<Rightarrow> unit run" where
  "setup_aps w ssid password [] = ret ()"
| "setup_aps w ssid password (wemo_ap # wemo_aps) =
     bind (emit [Log INFO (DASHES w) []])
       (\<lambda>_. case connect_to_wemo_and_setup w wemo_ap ssid password of
               (t, Inl (SetupException msg)) \<Rightarrow>
                 bind (emit (t @ [Log ERROR msg [],
                                  Log ERROR ''|-- thus skipping: %s'' [S wemo_ap]]))
                   (\<lambda>_. setup_aps w ssid password wemo_aps)
             | (t, Inl exc) \<Rightarrow> (t, Inl exc)
             | (t, Inr _) \<Rightarrow> bind (emit t) (\<lambda>_. setup_aps w ssid password wemo_aps))"

definition reconnect :: "world \<Rightarrow> string \<Rightarrow> unit run" where
  "reconnect w current =
     (if current \<noteq> [] \<and> \<not> startswith (lower current) ''wemo.''
      then bind (emit [Log INFO ''attempting to reconnect host to %s'' [S current]])
             (\<lambda>_. case subprocess_run w [''nmcli'', ''device'', ''wifi'', ''connect'', current] True of
                     (t, Inl CalledProcessError) \<Rightarrow> emit t
                   | (t, Inl FileNotFoundError) \<Rightarrow> emit t
                   | (t, Inl exc) \<Rightarrow> (t, Inl exc)
                   | (t, Inr _) \<Rightarrow> emit t)
      else ret ())"

definition no_aps :: string where
  "no_aps =
     ''No valid Wemo device AP'' @ [CHR 0x27] @ ''s found.  Try running this ''
     @ ''again, otherwise consider directly connecting to the ''
     @ ''devices network and using the --name option.''"

definition setup_one :: "world \<Rightarrow> string \<Rightarrow> string \<Rightarrow> device \<Rightarrow> unit run" where
  "setup_one w ssid password device =
     (case setup_outcome w device ssid password of
        Inr _ \<Rightarrow> emit [Setup device ssid password True]
      | Inl exc \<Rightarrow> ([Setup device ssid password False], Inl exc))"

text \<open>The body of the \<open>try\<close> statement of \<open>click_wemo_setup\<close>.\<close>

definition setup_body ::
  "world \<Rightarrow> string \<Rightarrow> string \<Rightarrow> bool \<Rightarrow> string option \<Rightarrow> unit run" where
  "setup_body w ssid password setup_all name =
     bind (emit [Log INFO (DASHES w) [],
                 Log INFO (''NOTE: If some or all devices fail to connect, try ''
                           @ ''re-running the same command a second time!'') [],
                 Log INFO (DASHES w) []])
       (\<lambda>_. if setup_all then
               bind (find_wemo_aps w)
                 (\<lambda>(wemo_aps, current).
                    if wemo_aps = [] then raise (SetupException no_aps)
                    else bind ([Confirm (''Are you sure you want to setup all ''
                                         @ str_nat (length wemo_aps) @ '' ''
                                         @ [CHR 0x22] @ ''expected wemo'' @ [CHR 0x22]
                                         @ '' devices listed above?'')], Inr (confirm w))
                           (\<lambda>yes. if yes then
                                     bind (emit [Log INFO (DASHES w) []])
                                       (\<lambda>_. bind (if password = [] then ([Getpass], Inr (getpass w))
                                                   else ret password)
                                          (\<lambda>password.
                                             bind (setup_aps w ssid password wemo_aps)
                                               (\<lambda>_. bind (emit [Log INFO (DASHES w) []])
                                                  (\<lambda>_. reconnect w current))))
                                   else ret ()))
             else
               (case name of
                  Some n \<Rightarrow>
                    bind (discover_and_log_devices w None False 0)
                      (\<lambda>devices.
                         case select_device n devices of
                           None \<Rightarrow> raise (SetupException (not_found n))
                         | Some selected \<Rightarrow> setup_one w ssid password selected)
                | None \<Rightarrow> raise (SetupException ''--setup-all or --name=<str> is required'')))"

definition click_wemo_setup ::
  "world \<Rightarrow> nat \<Rightarrow> string \<Rightarrow> string \<Rightarrow> bool \<Rightarrow> string option \<Rightarrow> unit run" where
  "click_wemo_setup w verbose ssid password setup_all name =
     bind (emit (setup_logger w verbose))
       (\<lambda>_. case setup_body w ssid password setup_all name of
               (t, Inl (SetupException msg)) \<Rightarrow> (t @ [Log CRITICAL msg []], Inr ())
             | r \<Rightarrow> r)"

section \<open>Example devices and worlds\<close>

definition lamp :: device where
  "lamp =
     \<lparr>dev_name = ''Lamp'', dev_udn = ''uuid:Socket-1_0-A'', dev_host = ''10.0.0.5'',
      dev_services =
        [(''basicevent'',
            [(''GetFriendlyName'', Inr [(''FriendlyName'', Some ''Lamp'')]),
             (''GetMacAddr'', Inr [(''MacAddr'', Some ''94103E000001''), (''SerialNo'', None)]),
             (''SetBinaryState'', Inl (TypeError ''missing argument''))]),
         (''metainfo'',
            [(''GetMetaInfo'', Inr [(''faultcode'', Some ''s:Client''),
                                    (''faultstring'', Some ''UPnPError'')])])],
      dev_network_status = Inr ''1''\<rparr>"

definition lamp2 :: device where
  "lamp2 =
     \<lparr>dev_name = ''lamp2'', dev_udn = ''uuid:Socket-1_0-B'', dev_host = ''10.0.0.6'',
      dev_services =
        [(''basicevent'',
            [(''GetFriendlyName'', Inr [(''FriendlyName'', Some ''lamp2'')]),
             (''GetMacAddr'', Inl (AttributeError ''no such action''))])],
      dev_network_status = Inr ''0''\<rparr>"



definition listing :: string where
  "listing =
     ''wemo.livingroom: :6:80:'' @ [CHR 0x0A]
     @ ''HomeNet:*:11:90:WPA2'' @ [CHR 0x0A]
     @ ''WEMO.KITCHEN: :1:70:'' @ [CHR 0x0A]
     @ ''mywemodevice: :1:60:WPA2'' @ [CHR 0x0A]"

text \<open>
  A house with two devices, where \<open>nmcli\<close> is installed and lists four networks, the
  user confirms, and the reset of \<open>lamp2\<close> fails.
\<close>

definition home :: world where
  "home =
     \<lparr>columns = 11, date_time = ''November 04, 2026'', platinfo = ''Linux'', cwd = ''/root'',
      discover_devices = (\<lambda>net. if net = None then [lamp, lamp2] else []),
      nmcli_installed = True,
      nmcli = (\<lambda>args. \<lparr>returncode = 0,
                          stdout = (if args = list_args then listing else []),
                          stderr = []\<rparr>),
      confirm = True,
      getpass = ''secret'',
      reset_outcome = (\<lambda>device data wifi.
         if dev_name device = ''lamp2'' then Inl (ResetException ''reset failed'') else Inr ()),
      setup_outcome = (\<lambda>device ssid password. Inr ()),
      rename_outcome = (\<lambda>device name. Inr ())\<rparr>"

text \<open>The same house when nothing answers the discovery and no network is listed.\<close>

definition empty_house :: world where
  "empty_house =
     home\<lparr>discover_devices := (\<lambda>net. []),
          nmcli := (\<lambda>args. \<lparr>returncode = 0, stdout = [], stderr = []\<rparr>)\<rparr>"

definition names_csv :: "string list list" where
  "names_csv =
     [[''uuid:Socket-1_0-A'', ''10.0.0.9'', ''Desk Lamp''],
      [[], ''10.0.0.5'', ''Kitchen Light''],
      [''# uuid:Socket-1_0-B'', ''10.0.0.6'', ''Ignored''],
      [''uuid:Socket-1_0-B'', ''10.0.0.6'', ''  ''],
      [''short'', ''row'']]"

section \<open>Reading a trace\<close>

fun is_log :: "event \<Rightarrow> bool" where
  "is_log (Log _ _ _) = True"
| "is_log _ = False"

text \<open>
  The SSID column of a listing, as the scan reads it: of every line that is not blank,
  what is left of the fourth colon from the right.
\<close>

definition listed_ssids :: "string \<Rightarrow> string list" where
  "listed_ssids out =
     map (\<lambda>line. hd (rsplit CHR '':'' 4 line))
       (filter (\<lambda>line. strip line \<noteq> []) (split_all (CHR 0x0A) (strip out)))"

definition has_fields :: "string \<Rightarrow> bool" where
  "has_fields out =
     list_all (\<lambda>line. strip line = [] \<or> 4 \<le> count_list line CHR '':'')
       (split_all (CHR 0x0A) (strip out))"

text \<open>
  The filter in the words of the specification: \<open>s\<close> begins with \<open>p\<close> when the case of
  the letters is ignored.
\<close>

definition has_prefix_ignoring_case :: "string \<Rightarrow> string \<Rightarrow> bool" where
  "has_prefix_ignoring_case p s =
     (length p \<le> length s \<and> lower (take (length p) s) = lower p)"

text \<open>The reset attempts of a trace, and those that returned.\<close>

fun is_reset :: "event \<Rightarrow> bool" where
  "is_reset (Reset _ _ _ _) = True"
| "is_reset _ = False"

fun reset_done :: "event \<Rightarrow> bool" where
  "reset_done (Reset _ _ _ ok) = ok"
| "reset_done _ = False"

fun returned :: "exn + unit \<Rightarrow> bool" where
  "returned (Inr _) = True"
| "returned (Inl _) = False"

text \<open>A reset that returns or raises \<open>ResetException\<close>, and no other exception.\<close>

fun reset_or_error :: "exn + unit \<Rightarrow> bool" where
  "reset_or_error (Inr _) = True"
| "reset_or_error (Inl (ResetException _)) = True"
| "reset_or_error (Inl _) = False"

text \<open>The three lines that open the \<open>try\<close> statement of the setup command.\<close>

definition setup_note :: "world \<Rightarrow> event list" where
  "setup_note w =
     [Log INFO (DASHES w) [],
      Log INFO (''NOTE: If some or all devices fail to connect, try ''
                @ ''re-running the same command a second time!'') [],
      Log INFO (DASHES w) []]"





text \<open>
  The house when \<open>nmcli\<close> refuses the rescan with status 1 and then lists the networks
  with status 0, and the house when the listing itself ends with status 10.
\<close>

definition rescan_args :: "string list" where
  "rescan_args = [''nmcli'', ''device'', ''wifi'', ''rescan'']"

definition rescan_refused :: world where
  "rescan_refused =
     home\<lparr>nmcli := (\<lambda>args.
       if args = rescan_args
       then \<lparr>returncode = 1, stdout = [], stderr = ''Error: Scanning not allowed''\<rparr>
       else \<lparr>returncode = 0,
             stdout = (if args = list_args then listing else []),
             stderr = []\<rparr>)\<rparr>"

definition listing_refused :: world where
  "listing_refused =
     home\<lparr>nmcli := (\<lambda>args. \<lparr>returncode = 10, stdout = [], stderr = ''Error''\<rparr>)\<rparr>"

section \<open>Sequencing\<close>

lemma bind_Inl [simp]: "bind (t, Inl exc) f = (t, Inl exc)"
  by (simp add: bind_def)

lemma bind_Inr [simp]: "bind (t, Inr a) f = (t @ fst (f a), snd (f a))"
  by (simp add: bind_def split: prod.splits)

lemma bind_emit [simp]: "bind (emit t) f = (t @ fst (f ()), snd (f ()))"
  by (simp add: emit_def)

lemma bind_ret [simp]: "bind (ret x) f = f x"
  by (simp add: ret_def)

lemma fst_bind:
  "fst (bind m f) = fst m @ (case snd m of Inl _ \<Rightarrow> [] | Inr a \<Rightarrow> fst (f a))"
  by (cases m; cases "snd m") auto

lemma snd_bind:
  "snd (bind m f) = (case snd m of Inl exc \<Rightarrow> Inl exc | Inr a \<Rightarrow> snd (f a))"
  by (cases m; cases "snd m") auto

section \<open>Discovery leaves only log lines\<close>

lemma log_calls_logs: "\<forall>e\<in>set (fst (log_calls device items failed_calls)). is_log e"
proof (induction items arbitrary: failed_calls)
  case Nil
  then show ?case by simp
next
  case (Cons item items)
  show ?case
  proof (cases "diag_call device item")
    case (Inl exc)
    then show ?thesis by simp
  next
    case (Inr d)
    show ?thesis
    proof (cases d)
      case (Logged ev)
      have "is_log ev"
        using Inr Logged
        by (auto simp: diag_call_def print_result_def failed_to_get_def Let_def
                 split: prod.splits sum.splits option.splits if_splits)
      with Inr Logged Cons.IH[of failed_calls] show ?thesis
        by (simp split: prod.splits)
    next
      case (Failed name result)
      with Inr Cons.IH show ?thesis by simp
    qed
  qed
qed

lemma failed_section_logs: "\<forall>e\<in>set (failed_section failed_calls). is_log e"
  by (auto simp: failed_section_def failed_header_def)

lemma log_details_logs: "\<forall>e\<in>set (fst (log_details device verbose)). is_log e"
  using log_calls_logs[of device "data_to_print device verbose" "[]"]
  by (auto simp: log_details_def fst_bind failed_section_logs split: sum.splits)

lemma log_found_logs: "\<forall>e\<in>set (fst (log_found w verbose devices)). is_log e"
proof (induction devices)
  case Nil
  then show ?case by simp
next
  case (Cons device devices)
  then show ?case
    using log_details_logs[of device verbose]
    by (auto simp: fst_bind split: sum.splits)
qed

lemma needing_setup_logs: "\<forall>e\<in>set (fst (needing_setup devices)). is_log e"
proof (induction devices)
  case Nil
  then show ?case by simp
next
  case (Cons device devices)
  then show ?case
    by (auto simp: fst_bind split: sum.splits)
qed

lemma discover_logs:
  "\<forall>e\<in>set (fst (discover_and_log_devices w net only_needing_setup verbose)). is_log e"
  using log_found_logs[of w verbose "discover_devices w net"]
        needing_setup_logs[of "discover_devices w net"]
  by (auto simp: discover_and_log_devices_def Let_def fst_bind split: sum.splits)

lemma discover_result:
  "snd (discover_and_log_devices w net False verbose) = Inr devices \<Longrightarrow>
   devices = discover_devices w net"
  by (auto simp: discover_and_log_devices_def Let_def snd_bind split: sum.splits)

lemma setup_logger_logs: "\<forall>e\<in>set (setup_logger w verbose). is_log e"
  by (simp add: setup_logger_def)

section \<open>Stripping\<close>

lemma strip_empty_all_space: "strip s = [] \<Longrightarrow> \<forall>c\<in>set s. is_space c"
proof -
  assume a: "strip s = []"
  have "dropWhile is_space s = []"
  proof (rule ccontr)
    assume n: "dropWhile is_space s \<noteq> []"
    then have "\<not> is_space (hd (dropWhile is_space s))" by (rule hd_dropWhile)
    moreover from a have "dropWhile is_space (rev (dropWhile is_space s)) = []"
      by (simp add: strip_def)
    then have "\<forall>c\<in>set (rev (dropWhile is_space s)). is_space c"
      by simp
    then have "is_space (hd (dropWhile is_space s))" using n by simp
    ultimately show False by simp
  qed
  then show ?thesis by simp
qed

lemma strip_empty_no_comment: "strip s = [] \<Longrightarrow> \<not> startswith s ''#''"
proof
  assume a: "strip s = []" and b: "startswith s ''#''"
  from b have "s \<noteq> [] \<and> hd s = CHR ''#''"
    by (cases s) (auto simp: startswith_def)
  with strip_empty_all_space[OF a] have "is_space CHR ''#''" by (cases s) auto
  then show False by (simp add: is_space_def)
qed

section \<open>Names and selection\<close>

lemma read_row_nonempty:
  assumes "read_row row maps = Inr maps'"
      and "\<forall>k n. fst maps k = Some n \<longrightarrow> n \<noteq> []"
  shows "\<forall>k n. fst maps' k = Some n \<longrightarrow> n \<noteq> []"
  using assms
  by (cases maps) (auto simp: read_row_def split: if_splits list.splits; blast)

lemma read_rows_nonempty:
  "read_rows rows maps = Inr maps' \<Longrightarrow> \<forall>k n. fst maps k = Some n \<longrightarrow> n \<noteq> [] \<Longrightarrow>
   \<forall>k n. fst maps' k = Some n \<longrightarrow> n \<noteq> []"
proof (induction rows arbitrary: maps)
  case Nil
  then show ?case by simp
next
  case (Cons row rows)
  from Cons.prems(1) obtain m where m: "read_row row maps = Inr m" "read_rows rows m = Inr maps'"
    by (auto split: sum.splits)
  from read_row_nonempty[OF m(1) Cons.prems(2)] Cons.IH[OF m(2)] show ?case by blast
qed

lemma new_name_udn: "fst maps (dev_udn device) = Some name \<Longrightarrow> new_name maps device = name"
  by (cases maps) (simp add: new_name_def)

lemma rename_devices_calls:
  "ChangeFriendlyName device n ok \<in> set (fst (rename_devices w maps devices)) \<Longrightarrow>
   device \<in> set devices \<and> n = new_name maps device"
proof (induction devices)
  case Nil
  then show ?case by (simp add: ret_def)
next
  case (Cons d devices)
  then show ?case
    by (cases "rename_outcome w d (new_name maps d)")
       (auto simp: Let_def split: if_splits)
qed

lemma rename_devices_all:
  "\<forall>d\<in>set devices. rename_outcome w d (new_name maps d) = Inr () \<Longrightarrow>
   device \<in> set devices \<Longrightarrow> new_name maps device \<noteq> [] \<Longrightarrow>
   ChangeFriendlyName device (new_name maps device) True \<in> set (fst (rename_devices w maps devices))"
proof (induction devices)
  case Nil
  then show ?case by simp
next
  case (Cons d devices)
  then show ?case by (auto simp: Let_def)
qed

lemma select_device_first:
  "\<forall>x\<in>set pre. lower (dev_name x) \<noteq> lower name \<Longrightarrow> lower (dev_name d) = lower name \<Longrightarrow>
   select_device name (pre @ d # post) = Some d"
  by (induction pre) auto

lemma select_device_None:
  "(\<forall>x\<in>set devices. lower (dev_name x) \<noteq> lower name) \<Longrightarrow> select_device name devices = None"
  by (induction devices) auto

section \<open>Splitting and the scan\<close>

lemma count_list_takeWhile_dropWhile:
  "dropWhile (\<lambda>x. x \<noteq> c) s = y # rest \<Longrightarrow> count_list s c = Suc (count_list rest c)"
proof (induction s)
  case Nil
  then show ?case by simp
next
  case (Cons a s)
  then show ?case by (cases "a = c") auto
qed

lemma count_list_no_sep: "dropWhile (\<lambda>x. x \<noteq> c) s = [] \<Longrightarrow> count_list s c = 0"
  by (induction s) (auto split: if_splits)

lemma length_split_max: "length (split_max c n s) = Suc (min n (count_list s c))"
proof (induction n arbitrary: s)
  case 0
  then show ?case by simp
next
  case (Suc n)
  show ?case
  proof (cases "dropWhile (\<lambda>x. x \<noteq> c) s")
    case Nil
    have "split_max c (Suc n) s = [s]"
      by (simp only: split_max.simps Nil list.case)
    with count_list_no_sep[OF Nil] show ?thesis by simp
  next
    case (Cons y rest)
    have "split_max c (Suc n) s = takeWhile (\<lambda>x. x \<noteq> c) s # split_max c n rest"
      by (simp only: split_max.simps Cons list.case)
    with count_list_takeWhile_dropWhile[OF Cons] Suc.IH[of rest] show ?thesis by simp
  qed
qed

lemma count_list_rev: "count_list (rev s) c = count_list s c"
  by (induction s) auto

lemma length_rsplit: "length (rsplit c n s) = Suc (min n (count_list s c))"
  by (simp add: rsplit_def length_split_max count_list_rev)

lemma rsplit_five:
  assumes "4 \<le> count_list line CHR '':''"
  shows "\<exists>ssid in_use channel signal security.
           rsplit CHR '':'' 4 line = [ssid, in_use, channel, signal, security]"
proof -
  have "length (rsplit CHR '':'' 4 line) = 5" using assms by (simp add: length_rsplit)
  then show ?thesis
    by (auto simp: length_Suc_conv eval_nat_numeral)
qed

lemma is_wemo_ssid_prefix: "is_wemo_ssid ssid = has_prefix_ignoring_case ''wemo.'' ssid"
proof -
  have l: "lower ''wemo.'' = ''wemo.''"
    by (simp add: lower_def lower_char_def is_upper_def)
  have n: "length ''wemo.'' = 5" by simp
  have t: "take 5 (lower ssid) = lower (take 5 ssid)" by (simp add: lower_def take_map)
  have len: "lower (take 5 ssid) = ''wemo.'' \<Longrightarrow> 5 \<le> length ssid"
  proof -
    assume "lower (take 5 ssid) = ''wemo.''"
    then have "length (lower (take 5 ssid)) = length ''wemo.''" by (rule arg_cong)
    then have "min (length ssid) 5 = 5" by (simp add: lower_def)
    then show ?thesis by simp
  qed
  have "is_wemo_ssid ssid = (lower (take 5 ssid) = ''wemo.'')"
    unfolding is_wemo_ssid_def startswith_def n t ..
  also have "\<dots> = (5 \<le> length ssid \<and> lower (take 5 ssid) = ''wemo.'')"
    using len by blast
  also have "\<dots> = has_prefix_ignoring_case ''wemo.'' ssid"
    unfolding has_prefix_ignoring_case_def n l ..
  finally show ?thesis .
qed

lemma scan_lines_filter:
  "list_all (\<lambda>line. strip line = [] \<or> 4 \<le> count_list line CHR '':'') lines \<Longrightarrow>
   \<exists>t current. scan_lines lines wemo_networks current_network =
     (t, Inr (wemo_networks
              @ filter is_wemo_ssid
                  (map (\<lambda>line. hd (rsplit CHR '':'' 4 line))
                     (filter (\<lambda>line. strip line \<noteq> []) lines)),
              current))"
proof (induction lines arbitrary: wemo_networks current_network)
  case Nil
  then show ?case by (simp add: ret_def)
next
  case (Cons line lines)
  from Cons.prems have rest: "list_all (\<lambda>line. strip line = [] \<or> 4 \<le> count_list line CHR '':'') lines"
    by simp
  show ?case
  proof (cases "strip line = []")
    case True
    with Cons.IH[OF rest, of wemo_networks current_network] show ?thesis by simp
  next
    case False
    with Cons.prems have "4 \<le> count_list line CHR '':''" by simp
    from rsplit_five[OF this] obtain ssid in_use channel signal security where
      r: "rsplit CHR '':'' 4 line = [ssid, in_use, channel, signal, security]" by blast
    from Cons.IH[OF rest,
        of "if is_wemo_ssid ssid then wemo_networks @ [ssid] else wemo_networks"
           "if in_use = ''*'' then (if current_network \<noteq> [] then current_network else ssid)
            else current_network"]
    obtain t current where
      "scan_lines lines (if is_wemo_ssid ssid then wemo_networks @ [ssid] else wemo_networks)
         (if in_use = ''*'' then (if current_network \<noteq> [] then current_network else ssid)
          else current_network) =
       (t, Inr ((if is_wemo_ssid ssid then wemo_networks @ [ssid] else wemo_networks)
              @ filter is_wemo_ssid
                  (map (\<lambda>line. hd (rsplit CHR '':'' 4 line))
                     (filter (\<lambda>line. strip line \<noteq> []) lines)),
              current))" by blast
    with False r show ?thesis by simp
  qed
qed

section \<open>Resetting every device\<close>

lemma filter_reset_logs: "\<forall>e\<in>set t. is_log e \<Longrightarrow> filter is_reset t = []"
proof -
  assume a: "\<forall>e\<in>set t. is_log e"
  have "\<And>e. is_log e \<Longrightarrow> \<not> is_reset e" by (case_tac e) auto
  with a show ?thesis by (auto simp: filter_empty_conv)
qed

lemma reset_done_is_reset: "filter reset_done t = filter reset_done (filter is_reset t)"
proof -
  have "\<And>e. reset_done e \<Longrightarrow> is_reset e" by (case_tac e) auto
  then have "(\<lambda>e. is_reset e \<and> reset_done e) = reset_done" by auto
  then show ?thesis by simp
qed

lemma reset_devices_run:
  "list_all (\<lambda>d. reset_or_error (reset_outcome w d data wifi)) devices \<Longrightarrow>
   snd (reset_devices w data wifi devices) = Inr ()
   \<and> filter is_reset (fst (reset_devices w data wifi devices)) =
       map (\<lambda>d. Reset d data wifi (returned (reset_outcome w d data wifi))) devices
   \<and> (\<forall>d\<in>set devices. \<not> returned (reset_outcome w d data wifi) \<longrightarrow>
         Log ERROR ''|-- thus skipping: %s'' [D d] \<in> set (fst (reset_devices w data wifi devices)))"
proof (induction devices)
  case Nil
  then show ?case by (simp add: ret_def)
next
  case (Cons device devices)
  then have ih: "snd (reset_devices w data wifi devices) = Inr ()
     \<and> filter is_reset (fst (reset_devices w data wifi devices)) =
       map (\<lambda>d. Reset d data wifi (returned (reset_outcome w d data wifi))) devices
     \<and> (\<forall>d\<in>set devices. \<not> returned (reset_outcome w d data wifi) \<longrightarrow>
         Log ERROR ''|-- thus skipping: %s'' [D d] \<in> set (fst (reset_devices w data wifi devices)))"
    by simp
  from Cons.prems have ok: "reset_or_error (reset_outcome w device data wifi)" by simp
  show ?case
  proof (cases "reset_outcome w device data wifi")
    case (Inr u)
    with ih show ?thesis by simp
  next
    case (Inl exc)
    with ok obtain msg where "exc = ResetException msg" by (cases exc) auto
    with Inl ih show ?thesis by simp
  qed
qed

lemma filter_done_map:
  "filter reset_done (map (\<lambda>d. Reset d data wifi (f d)) devices) =
   map (\<lambda>d. Reset d data wifi True) (filter f devices)"
  by (induction devices) auto

section \<open>The handlers of the commands\<close>

lemma click_wemo_reset_caught:
  "reset_body w (full \<or> data) (full \<or> wifi) reset_all name = (t, Inl (ResetException msg)) \<Longrightarrow>
   click_wemo_reset w verbose data wifi full reset_all name =
     (setup_logger w verbose @ t @ [Log CRITICAL msg []], Inr ())"
  by (simp add: click_wemo_reset_def)

lemma click_wemo_setup_caught:
  "setup_body w ssid password setup_all name = (t, Inl (SetupException msg)) \<Longrightarrow>
   click_wemo_setup w verbose ssid password setup_all name =
     (setup_logger w verbose @ t @ [Log CRITICAL msg []], Inr ())"
  by (simp add: click_wemo_setup_def)

lemma click_wemo_reset_never:
  "snd (click_wemo_reset w verbose data wifi full reset_all name) \<noteq> Inl (ResetException msg)"
proof (cases "reset_body w (full \<or> data) (full \<or> wifi) reset_all name")
  case (Pair t r)
  then show ?thesis
    by (cases r; cases "projl r") (auto simp: click_wemo_reset_def)
qed

lemma click_wemo_setup_never:
  "snd (click_wemo_setup w verbose ssid password setup_all name) \<noteq> Inl (SetupException msg)"
proof (cases "setup_body w ssid password setup_all name")
  case (Pair t r)
  then show ?thesis
    by (cases r; cases "projl r") (auto simp: click_wemo_setup_def)
qed

lemma reset_body_not_found:
  "discover_and_log_devices w None False 0 = (t, Inr devices) \<Longrightarrow>
   select_device n devices = None \<Longrightarrow>
   reset_body w data wifi False (Some n) = (t, Inl (ResetException (not_found n)))"
  by (simp add: reset_body_def raise_def)

lemma setup_body_not_found:
  "discover_and_log_devices w None False 0 = (t, Inr devices) \<Longrightarrow>
   select_device n devices = None \<Longrightarrow>
   setup_body w ssid password False (Some n) =
     (setup_note w @ t, Inl (SetupException (not_found n)))"
  by (simp add: setup_body_def setup_note_def raise_def)

lemma setup_body_no_aps:
  "find_wemo_aps w = (t, Inr ([], current)) \<Longrightarrow>
   setup_body w ssid password True name = (setup_note w @ t, Inl (SetupException no_aps))"
  by (simp add: setup_body_def setup_note_def raise_def)

section \<open>Nothing discovered\<close>




section \<open>The diagnostic loop\<close>



section \<open>The errors of the scan\<close>

lemma scan_lines_error:
  "snd (scan_lines lines wemo_networks current_network) = Inl exc \<Longrightarrow>
   exc = ValueError ''not enough values to unpack (expected 5)''"
proof (induction lines arbitrary: wemo_networks current_network)
  case Nil
  then show ?case by (simp add: ret_def)
next
  case (Cons line lines)
  show ?case
  proof (cases "strip line = []")
    case True
    with Cons show ?thesis by simp
  next
    case False
    show ?thesis
    proof (cases "\<exists>ssid in_use channel signal security.
                    rsplit CHR '':'' 4 line = [ssid, in_use, channel, signal, security]")
      case True
      then obtain ssid in_use channel signal security where
        r: "rsplit CHR '':'' 4 line = [ssid, in_use, channel, signal, security]" by blast
      with False Cons.prems Cons.IH show ?thesis by simp
    next
      case no: False
      then have "scan_lines (line # lines) wemo_networks current_network =
                 raise (ValueError ''not enough values to unpack (expected 5)'')"
        using False by (auto split: list.splits)
      with Cons.prems show ?thesis by (simp add: raise_def)
    qed
  qed
qed

lemma find_wemo_aps_listed:
  "nmcli_installed w \<Longrightarrow> returncode (nmcli w list_args) = 0 \<Longrightarrow>
   snd (find_wemo_aps w) \<noteq> Inl (SetupException msg)"
proof
  assume i: "nmcli_installed w" and z: "returncode (nmcli w list_args) = 0"
     and e: "snd (find_wemo_aps w) = Inl (SetupException msg)"
  from i z have "snd (find_wemo_aps w) =
      snd (scan_lines (split_all (CHR 0x0A) (strip (stdout (nmcli w list_args)))) [] [])"
    by (simp add: find_wemo_aps_def subprocess_run_def)
  with e scan_lines_error show False by fastforce
qed

lemma find_wemo_aps_missing:
  "\<not> nmcli_installed w \<Longrightarrow>
   snd (find_wemo_aps w) =
     Inl (SetupException ''nmcli command failed (NetworkManager must be installed)'')"
  by (simp add: find_wemo_aps_def subprocess_run_def nmcli_failed_def)

lemma find_wemo_aps_exit:
  "nmcli_installed w \<Longrightarrow> returncode (nmcli w list_args) \<noteq> 0 \<Longrightarrow>
   snd (find_wemo_aps w) = Inl (SetupException ''nmcli command failed'')"
  by (simp add: find_wemo_aps_def subprocess_run_def nmcli_failed_def)

section \<open>The example house\<close>

lemma names_csv_maps:
  "read_rows names_csv (Map.empty, Map.empty) =
     Inr ([''uuid:Socket-1_0-A'' \<mapsto> ''Desk Lamp''],
          [''10.0.0.9'' \<mapsto> ''Desk Lamp'', ''10.0.0.5'' \<mapsto> ''Kitchen Light''])"
  by (simp add: names_csv_def read_row_def strip_def is_space_def startswith_def)

lemma home_discovers: "snd (discover_and_log_devices home None False 0) = Inr [lamp, lamp2]"
  by code_simp

lemma home_listing: "stdout (nmcli home list_args) = listing"
  by (simp add: home_def)

lemma listing_fields: "has_fields listing"
  by code_simp

lemma listing_ssids:
  "listed_ssids listing = [''wemo.livingroom'', ''HomeNet'', ''WEMO.KITCHEN'', ''mywemodevice'']"
  by code_simp

lemma empty_house_scan: "snd (find_wemo_aps empty_house) = Inr ([], [])"
  by code_simp

lemma home_no_heater: "select_device ''Heater'' [lamp, lamp2] = None"
  by code_simp


section \<open>The rename file\<close>

lemma read_row_error:
  "read_row row maps = Inl exc \<Longrightarrow> exc = ValueError ''too many values to unpack (expected 3)''"
  by (auto simp: read_row_def split: prod.splits if_splits list.splits)

lemma read_row_long:
  "3 < length row \<Longrightarrow> \<not> startswith (hd row) ''#'' \<Longrightarrow>
   read_row row maps = Inl (ValueError ''too many values to unpack (expected 3)'')"
  by (cases maps) (auto simp: read_row_def split: list.splits)

lemma read_rows_long:
  "row \<in> set rows \<Longrightarrow> 3 < length row \<Longrightarrow> \<not> startswith (hd row) ''#'' \<Longrightarrow>
   read_rows rows maps = Inl (ValueError ''too many values to unpack (expected 3)'')"
proof (induction rows arbitrary: maps)
  case Nil
  then show ?case by simp
next
  case (Cons r rows)
  show ?case
  proof (cases "read_row r maps")
    case (Inl e)
    then show ?thesis using read_row_error[OF Inl] by simp
  next
    case (Inr maps')
    with Cons.prems have "r \<noteq> row" using read_row_long[of row maps] by auto
    with Cons.prems have "row \<in> set rows" by simp
    from Cons.IH[OF this Cons.prems(2,3)] Inr show ?thesis by simp
  qed
qed

text \<open>
  Claim C1. In the rename command, a device whose UDN is a key of \<open>udn_to_name\<close> gets
  the name stored under its UDN, whatever \<open>ip_to_name\<close> holds for its address. The
  maps are those read from the file, so the name is not empty; no
  \<open>ChangeFriendlyName\<close> of the run gives that device another name; and when the
  discovery returns the device and no rename of the run raises, the device is renamed to
  that name.
\<close>

theorem wemo_rename_udn_first:
  assumes "read_rows rows (Map.empty, Map.empty) = Inr maps"
      and "fst maps (dev_udn device) = Some name"
  shows "new_name maps device = name \<and> name \<noteq> []
       \<and> (\<forall>n ok. ChangeFriendlyName device n ok \<in> set (fst (wemo_rename w verbose rows))
                  \<longrightarrow> n = name)
       \<and> (snd (discover_and_log_devices w None False 0) = Inr devices
            \<and> device \<in> set devices
            \<and> (\<forall>d\<in>set devices. rename_outcome w d (new_name maps d) = Inr ())
          \<longrightarrow> ChangeFriendlyName device name True \<in> set (fst (wemo_rename w verbose rows)))"
proof -
  have nn: "new_name maps device = name" using assms(2) by (rule new_name_udn)
  have ne: "name \<noteq> []" using read_rows_nonempty[OF assms(1)] assms(2) by simp
  have tr: "fst (wemo_rename w verbose rows) =
            setup_logger w verbose @ fst (discover_and_log_devices w None False 0)
            @ (case snd (discover_and_log_devices w None False 0) of
                 Inl _ \<Rightarrow> [] | Inr ds \<Rightarrow> fst (rename_devices w maps ds))"
    using assms(1) by (simp add: wemo_rename_def fst_bind)
  have only: "\<forall>n ok. ChangeFriendlyName device n ok \<in> set (fst (wemo_rename w verbose rows))
                  \<longrightarrow> n = name"
  proof (intro allI impI)
    fix n ok
    assume a: "ChangeFriendlyName device n ok \<in> set (fst (wemo_rename w verbose rows))"
    have "\<not> is_log (ChangeFriendlyName device n ok)" by simp
    with a tr setup_logger_logs[of w verbose] discover_logs[of w None False 0]
    obtain ds where "ChangeFriendlyName device n ok \<in> set (fst (rename_devices w maps ds))"
      by (auto split: sum.splits)
    from rename_devices_calls[OF this] nn show "n = name" by simp
  qed
  have run: "snd (discover_and_log_devices w None False 0) = Inr devices
            \<and> device \<in> set devices
            \<and> (\<forall>d\<in>set devices. rename_outcome w d (new_name maps d) = Inr ())
          \<longrightarrow> ChangeFriendlyName device name True \<in> set (fst (wemo_rename w verbose rows))"
  proof
    assume h: "snd (discover_and_log_devices w None False 0) = Inr devices
            \<and> device \<in> set devices
            \<and> (\<forall>d\<in>set devices. rename_outcome w d (new_name maps d) = Inr ())"
    with rename_devices_all[of devices w maps device] nn ne
    have "ChangeFriendlyName device name True \<in> set (fst (rename_devices w maps devices))"
      by simp
    with h tr show "ChangeFriendlyName device name True \<in> set (fst (wemo_rename w verbose rows))"
      by simp
  qed
  from nn ne only run show ?thesis by blast
qed

theorem wemo_rename_udn_first_witness:
  "read_rows names_csv (Map.empty, Map.empty) =
     Inr ([''uuid:Socket-1_0-A'' \<mapsto> ''Desk Lamp''],
          [''10.0.0.9'' \<mapsto> ''Desk Lamp'', ''10.0.0.5'' \<mapsto> ''Kitchen Light''])
   \<and> [''uuid:Socket-1_0-A'' \<mapsto> ''Desk Lamp''] (dev_udn lamp) = Some ''Desk Lamp''
   \<and> [''10.0.0.9'' \<mapsto> ''Desk Lamp'', ''10.0.0.5'' \<mapsto> ''Kitchen Light''] (dev_host lamp)
       = Some ''Kitchen Light''
   \<and> snd (discover_and_log_devices home None False 0) = Inr [lamp, lamp2]
   \<and> new_name ([''uuid:Socket-1_0-A'' \<mapsto> ''Desk Lamp''],
          [''10.0.0.9'' \<mapsto> ''Desk Lamp'', ''10.0.0.5'' \<mapsto> ''Kitchen Light'']) lamp = ''Desk Lamp''
   \<and> ChangeFriendlyName lamp ''Desk Lamp'' True \<in> set (fst (wemo_rename home 0 names_csv))"
proof -
  let ?maps = "([''uuid:Socket-1_0-A'' \<mapsto> ''Desk Lamp''],
          [''10.0.0.9'' \<mapsto> ''Desk Lamp'', ''10.0.0.5'' \<mapsto> ''Kitchen Light''])"
  have h1: "read_rows names_csv (Map.empty, Map.empty) = Inr ?maps" by (rule names_csv_maps)
  have h2: "fst ?maps (dev_udn lamp) = Some ''Desk Lamp''" by (simp add: lamp_def)
  have h3: "snd ?maps (dev_host lamp) = Some ''Kitchen Light''" by (simp add: lamp_def)
  have h4: "snd (discover_and_log_devices home None False 0) = Inr [lamp, lamp2]"
    by (rule home_discovers)
  have h5: "\<forall>d\<in>set [lamp, lamp2]. rename_outcome home d (new_name ?maps d) = Inr ()"
    by (simp add: home_def)
  from wemo_rename_udn_first[OF h1 h2, of home 0 "[lamp, lamp2]"] h4 h5
  have "new_name ?maps lamp = ''Desk Lamp''
        \<and> ChangeFriendlyName lamp ''Desk Lamp'' True \<in> set (fst (wemo_rename home 0 names_csv))"
    by simp
  with h1 h2 h3 h4 show ?thesis by simp
qed

text \<open>
  Claim C4. One row of the rename file, the fields compared as the code compares them,
  after \<open>strip\<close>: a row of three fields whose UDN is empty and whose IP and name are
  not is entered in \<open>ip_to_name\<close> only; a row of three fields whose name is empty or
  white space changes neither map; a row whose first field begins with \<open>#\<close> changes
  neither map, whatever its other fields and their number; a row of fewer than three
  fields changes neither map.
\<close>

theorem read_row_rows:
  "(strip udn = [] \<and> strip ip \<noteq> [] \<and> strip name \<noteq> [] \<longrightarrow>
      read_row [udn, ip, name] (udn_to_name, ip_to_name) =
        Inr (udn_to_name, ip_to_name(strip ip \<mapsto> strip name)))
   \<and> (strip name = [] \<longrightarrow> read_row [udn, ip, name] maps = Inr maps)
   \<and> (startswith first ''#'' \<longrightarrow> read_row (first # others) maps = Inr maps)
   \<and> (length row < 3 \<longrightarrow> read_row row maps = Inr maps)"
proof (intro conjI impI)
  assume "strip udn = [] \<and> strip ip \<noteq> [] \<and> strip name \<noteq> []"
  then show "read_row [udn, ip, name] (udn_to_name, ip_to_name) =
        Inr (udn_to_name, ip_to_name(strip ip \<mapsto> strip name))"
    using strip_empty_no_comment[of udn] by (simp add: read_row_def)
next
  assume "strip name = []"
  then show "read_row [udn, ip, name] maps = Inr maps"
    by (cases maps) (simp add: read_row_def)
next
  assume "startswith first ''#''"
  then show "read_row (first # others) maps = Inr maps"
    by (cases maps) (simp add: read_row_def)
next
  assume "length row < 3"
  then show "read_row row maps = Inr maps"
    by (cases maps) (simp add: read_row_def)
qed

theorem read_row_rows_witness:
  "strip [] = [] \<and> strip ''10.0.0.5'' \<noteq> [] \<and> strip ''Kitchen Light'' \<noteq> []
   \<and> read_row [[], ''10.0.0.5'', ''Kitchen Light''] (Map.empty, Map.empty) =
       Inr (Map.empty, [''10.0.0.5'' \<mapsto> ''Kitchen Light''])
   \<and> strip ''  '' = []
   \<and> read_row [''uuid:Socket-1_0-B'', ''10.0.0.6'', ''  ''] (Map.empty, Map.empty) =
       Inr (Map.empty, Map.empty)
   \<and> startswith ''# uuid:Socket-1_0-B'' ''#''
   \<and> read_row [''# uuid:Socket-1_0-B'', ''10.0.0.6'', ''Ignored''] (Map.empty, Map.empty) =
       Inr (Map.empty, Map.empty)
   \<and> length [''short'', ''row''] < 3
   \<and> read_row [''short'', ''row''] (Map.empty, Map.empty) = Inr (Map.empty, Map.empty)"
proof -
  have s1: "strip [] = []" by (simp add: strip_def)
  have s2: "strip ''10.0.0.5'' = ''10.0.0.5''" by (simp add: strip_def is_space_def)
  have s3: "strip ''Kitchen Light'' = ''Kitchen Light''" by (simp add: strip_def is_space_def)
  have s4: "strip ''  '' = []" by (simp add: strip_def is_space_def)
  have s5: "startswith ''# uuid:Socket-1_0-B'' ''#''" by (simp add: startswith_def)
  have s6: "length [''short'', ''row''] < 3" by simp
  note t1 = read_row_rows[where udn="[]" and ip="''10.0.0.5''" and name="''Kitchen Light''"
                            and udn_to_name=Map.empty and ip_to_name=Map.empty]
  note t2 = read_row_rows[where udn="''uuid:Socket-1_0-B''" and ip="''10.0.0.6''"
                            and name="''  ''" and maps="(Map.empty, Map.empty)"]
  note t3 = read_row_rows[where first="''# uuid:Socket-1_0-B''"
                            and others="[''10.0.0.6'', ''Ignored'']"
                            and maps="(Map.empty, Map.empty)"]
  note t4 = read_row_rows[where row="[''short'', ''row'']" and maps="(Map.empty, Map.empty)"]
  show ?thesis using s1 s2 s3 s4 s5 s6 t1 t2 t3 t4 by simp
qed

text \<open>
  Claim C10. A row of the rename file with more than three fields whose first field does
  not begin with \<open>#\<close> is not skipped: the unpacking into \<open>udn, ip, name\<close> raises
  \<open>ValueError\<close>, nothing handles it, and the rename command ends with that exception
  after the lines of \<open>setup_logger\<close>, before any discovery, whatever the other rows are.
\<close>

theorem wemo_rename_long_row:
  assumes "row \<in> set rows" and "3 < length row" and "\<not> startswith (hd row) ''#''"
  shows "read_row row maps = Inl (ValueError ''too many values to unpack (expected 3)'')
       \<and> wemo_rename w verbose rows =
           (setup_logger w verbose, Inl (ValueError ''too many values to unpack (expected 3)''))"
  using read_row_long[OF assms(2,3)] read_rows_long[OF assms]
  by (simp add: wemo_rename_def bind_def emit_def raise_def)

theorem wemo_rename_long_row_witness:
  "[''uuid:Socket-1_0-A'', ''10.0.0.5'', ''Lamp'', ''extra''] \<in>
     set [[''uuid:Socket-1_0-B'', ''10.0.0.6'', ''Fan''],
          [''uuid:Socket-1_0-A'', ''10.0.0.5'', ''Lamp'', ''extra'']]
   \<and> 3 < length [''uuid:Socket-1_0-A'', ''10.0.0.5'', ''Lamp'', ''extra'']
   \<and> \<not> startswith (hd [''uuid:Socket-1_0-A'', ''10.0.0.5'', ''Lamp'', ''extra'']) ''#''
   \<and> read_row [''uuid:Socket-1_0-A'', ''10.0.0.5'', ''Lamp'', ''extra''] (Map.empty, Map.empty)
       = Inl (ValueError ''too many values to unpack (expected 3)'')
   \<and> wemo_rename home 0
        [[''uuid:Socket-1_0-B'', ''10.0.0.6'', ''Fan''],
         [''uuid:Socket-1_0-A'', ''10.0.0.5'', ''Lamp'', ''extra'']]
       = (setup_logger home 0, Inl (ValueError ''too many values to unpack (expected 3)''))"
proof -
  have h1: "[''uuid:Socket-1_0-A'', ''10.0.0.5'', ''Lamp'', ''extra''] \<in>
     set [[''uuid:Socket-1_0-B'', ''10.0.0.6'', ''Fan''],
          [''uuid:Socket-1_0-A'', ''10.0.0.5'', ''Lamp'', ''extra'']]" by simp
  have h2: "3 < length [''uuid:Socket-1_0-A'', ''10.0.0.5'', ''Lamp'', ''extra'']" by simp
  have h3: "\<not> startswith (hd [''uuid:Socket-1_0-A'', ''10.0.0.5'', ''Lamp'', ''extra'']) ''#''"
    by (simp add: startswith_def)
  from wemo_rename_long_row[OF h1 h2 h3, of "(Map.empty, Map.empty)" home 0] h1 h2 h3
  show ?thesis by blast
qed

section \<open>The filter of the scan\<close>

text \<open>
  Claim C7. When \<open>nmcli\<close> is installed, the listing exits with status zero and each
  of its lines that is not blank has its five fields, the scan returns, and the access
  points it returns are the listed SSIDs, in their order, that begin with \<open>wemo.\<close>
  when the case of the letters is ignored: a listed SSID is a candidate if and only if
  it has that prefix at its start. So \<open>wemo.livingroom\<close> and \<open>WEMO.KITCHEN\<close> are
  candidates and \<open>mywemodevice\<close> is not.
\<close>

theorem find_wemo_aps_filter:
  assumes "nmcli_installed w" and "returncode (nmcli w list_args) = 0"
      and "has_fields (stdout (nmcli w list_args))"
  shows "\<exists>t current. find_wemo_aps w =
           (t, Inr (filter (has_prefix_ignoring_case ''wemo.'')
                      (listed_ssids (stdout (nmcli w list_args))), current))"
proof -
  from assms(3) scan_lines_filter[of "split_all (CHR 0x0A) (strip (stdout (nmcli w list_args)))" "[]" "[]"]
  obtain t current where
    "scan_lines (split_all (CHR 0x0A) (strip (stdout (nmcli w list_args)))) [] [] =
       (t, Inr (filter is_wemo_ssid (listed_ssids (stdout (nmcli w list_args))), current))"
    by (auto simp: has_fields_def listed_ssids_def)
  moreover have "filter is_wemo_ssid = filter (has_prefix_ignoring_case ''wemo.'')"
    by (rule arg_cong[of _ _ filter]) (rule ext, rule is_wemo_ssid_prefix)
  ultimately show ?thesis
    using assms(1,2) by (simp add: find_wemo_aps_def subprocess_run_def)
qed

theorem find_wemo_aps_filter_witness:
  "nmcli_installed home \<and> returncode (nmcli home list_args) = 0
   \<and> has_fields (stdout (nmcli home list_args))
   \<and> listed_ssids (stdout (nmcli home list_args)) =
       [''wemo.livingroom'', ''HomeNet'', ''WEMO.KITCHEN'', ''mywemodevice'']
   \<and> has_prefix_ignoring_case ''wemo.'' ''wemo.livingroom''
   \<and> has_prefix_ignoring_case ''wemo.'' ''WEMO.KITCHEN''
   \<and> \<not> has_prefix_ignoring_case ''wemo.'' ''mywemodevice''
   \<and> map_sum id fst (snd (find_wemo_aps home)) = Inr [''wemo.livingroom'', ''WEMO.KITCHEN'']"
proof -
  have h1: "nmcli_installed home" by (simp add: home_def)
  have h2: "returncode (nmcli home list_args) = 0" by (simp add: home_def)
  have h3: "has_fields (stdout (nmcli home list_args))"
    using listing_fields by (simp add: home_listing)
  have h4: "listed_ssids (stdout (nmcli home list_args)) =
       [''wemo.livingroom'', ''HomeNet'', ''WEMO.KITCHEN'', ''mywemodevice'']"
    using listing_ssids by (simp add: home_listing)
  have p1: "has_prefix_ignoring_case ''wemo.'' ''wemo.livingroom''" by code_simp
  have p2: "has_prefix_ignoring_case ''wemo.'' ''WEMO.KITCHEN''" by code_simp
  have p3: "\<not> has_prefix_ignoring_case ''wemo.'' ''HomeNet''" by code_simp
  have p4: "\<not> has_prefix_ignoring_case ''wemo.'' ''mywemodevice''" by code_simp
  from find_wemo_aps_filter[OF h1 h2 h3] obtain t current where
    "find_wemo_aps home =
       (t, Inr (filter (has_prefix_ignoring_case ''wemo.'')
                  (listed_ssids (stdout (nmcli home list_args))), current))" by blast
  then have "map_sum id fst (snd (find_wemo_aps home)) = Inr [''wemo.livingroom'', ''WEMO.KITCHEN'']"
    using h4 p1 p2 p3 p4 by simp
  with h1 h2 h3 h4 p1 p2 p4 show ?thesis by simp
qed

section \<open>The failures of the scan\<close>

text \<open>
  Claim C9 says that the scan fails when the tool exits with a status that is not zero,
  and that this failure and the one of a missing tool are two kinds of error. The
  rescan is run with \<open>check=False\<close>: in a house where \<open>nmcli\<close> refuses the rescan
  with status 1 and then lists the networks, the scan does not fail and returns the two
  access points and the current network.
\<close>

theorem rescan_exit_ignored:
  "nmcli_installed rescan_refused
   \<and> returncode (nmcli rescan_refused rescan_args) = 1
   \<and> find_wemo_aps rescan_refused =
       ([Run rescan_args, Run list_args,
         result_of list_args (nmcli rescan_refused list_args),
         Log INFO ''expected wemo ap: %s (channel=%s, signal=%s, security=%s)''
           [S ''wemo.livingroom'', S ''6'', S ''80'', S []],
         Log DEBUG ''current network: %s (channel=%s, signal=%s, security=%s)''
           [S ''HomeNet'', S ''11'', S ''90'', S ''WPA2''],
         Log INFO ''expected wemo ap: %s (channel=%s, signal=%s, security=%s)''
           [S ''WEMO.KITCHEN'', S ''1'', S ''70'', S []]],
        Inr ([''wemo.livingroom'', ''WEMO.KITCHEN''], ''HomeNet''))"
  by code_simp

text \<open>
  Claim C9, amended. Both failures of the scan are raised as \<open>SetupException\<close> and
  differ in their message only. The message that NetworkManager must be installed is
  raised exactly when \<open>nmcli\<close> is not installed; the bare message
  \<open>nmcli command failed\<close> exactly when \<open>nmcli\<close> is installed and the listing exits
  with a status that is not zero. When the listing exits with status zero the scan
  raises no \<open>SetupException\<close>, whatever the status of the rescan. So what the caller
  receives for a missing tool differs from what it receives for a failed listing.
\<close>

theorem find_wemo_aps_failures:
  "(snd (find_wemo_aps w) =
      Inl (SetupException ''nmcli command failed (NetworkManager must be installed)'')
    \<longleftrightarrow> \<not> nmcli_installed w)
   \<and> (snd (find_wemo_aps w) = Inl (SetupException ''nmcli command failed'')
    \<longleftrightarrow> nmcli_installed w \<and> returncode (nmcli w list_args) \<noteq> 0)
   \<and> (nmcli_installed w \<and> returncode (nmcli w list_args) = 0 \<longrightarrow>
        snd (find_wemo_aps w) \<noteq> Inl (SetupException msg))
   \<and> (\<not> nmcli_installed w \<and> nmcli_installed w' \<and> returncode (nmcli w' list_args) \<noteq> 0 \<longrightarrow>
        snd (find_wemo_aps w) \<noteq> snd (find_wemo_aps w'))"
proof (intro conjI impI)
  show "(snd (find_wemo_aps w) =
          Inl (SetupException ''nmcli command failed (NetworkManager must be installed)''))
        = (\<not> nmcli_installed w)"
  proof (cases "nmcli_installed w")
    case False
    with find_wemo_aps_missing[OF False] show ?thesis by simp
  next
    case True
    show ?thesis
    proof (cases "returncode (nmcli w list_args) = 0")
      case z: True
      with True find_wemo_aps_listed[OF True z] show ?thesis by simp
    next
      case nz: False
      with True find_wemo_aps_exit[OF True nz] show ?thesis by simp
    qed
  qed
  show "(snd (find_wemo_aps w) = Inl (SetupException ''nmcli command failed''))
        = (nmcli_installed w \<and> returncode (nmcli w list_args) \<noteq> 0)"
  proof (cases "nmcli_installed w")
    case False
    with find_wemo_aps_missing[OF False] show ?thesis by simp
  next
    case True
    show ?thesis
    proof (cases "returncode (nmcli w list_args) = 0")
      case z: True
      with True find_wemo_aps_listed[OF True z] show ?thesis by simp
    next
      case nz: False
      with True find_wemo_aps_exit[OF True nz] show ?thesis by simp
    qed
  qed
  show "snd (find_wemo_aps w) \<noteq> Inl (SetupException msg)"
    if "nmcli_installed w \<and> returncode (nmcli w list_args) = 0"
    using that find_wemo_aps_listed by blast
  show "snd (find_wemo_aps w) \<noteq> snd (find_wemo_aps w')"
    if "\<not> nmcli_installed w \<and> nmcli_installed w' \<and> returncode (nmcli w' list_args) \<noteq> 0"
    using that find_wemo_aps_missing[of w] find_wemo_aps_exit[of w'] by simp
qed

theorem find_wemo_aps_failures_witness:
  "\<not> nmcli_installed (home\<lparr>nmcli_installed := False\<rparr>)
   \<and> nmcli_installed listing_refused
   \<and> returncode (nmcli listing_refused list_args) = 10
   \<and> nmcli_installed rescan_refused
   \<and> returncode (nmcli rescan_refused rescan_args) = 1
   \<and> returncode (nmcli rescan_refused list_args) = 0
   \<and> snd (find_wemo_aps (home\<lparr>nmcli_installed := False\<rparr>)) =
        Inl (SetupException ''nmcli command failed (NetworkManager must be installed)'')
   \<and> snd (find_wemo_aps listing_refused) = Inl (SetupException ''nmcli command failed'')
   \<and> snd (find_wemo_aps (home\<lparr>nmcli_installed := False\<rparr>))
       \<noteq> snd (find_wemo_aps listing_refused)
   \<and> snd (find_wemo_aps rescan_refused) \<noteq> Inl (SetupException ''nmcli command failed'')"
proof -
  have h1: "\<not> nmcli_installed (home\<lparr>nmcli_installed := False\<rparr>)" by simp
  have h2: "nmcli_installed listing_refused" by (simp add: listing_refused_def home_def)
  have h3: "returncode (nmcli listing_refused list_args) = 10"
    by (simp add: listing_refused_def)
  have h4: "nmcli_installed rescan_refused" by (simp add: rescan_refused_def home_def)
  have h5: "returncode (nmcli rescan_refused rescan_args) = 1"
    by (simp add: rescan_refused_def)
  have h6: "returncode (nmcli rescan_refused list_args) = 0"
    by (simp add: rescan_refused_def rescan_args_def list_args_def)
  have n3: "returncode (nmcli listing_refused list_args) \<noteq> 0" using h3 by simp
  note a = find_wemo_aps_failures[where w="home\<lparr>nmcli_installed := False\<rparr>"
             and w'=listing_refused]
  note b = find_wemo_aps_failures[where w=listing_refused]
  note c = find_wemo_aps_failures[where w=rescan_refused and msg="''nmcli command failed''"]
  from a h1 h2 n3 have r1: "snd (find_wemo_aps (home\<lparr>nmcli_installed := False\<rparr>)) =
        Inl (SetupException ''nmcli command failed (NetworkManager must be installed)'')
      \<and> snd (find_wemo_aps (home\<lparr>nmcli_installed := False\<rparr>))
          \<noteq> snd (find_wemo_aps listing_refused)" by blast
  from b h2 n3 have r2: "snd (find_wemo_aps listing_refused) =
        Inl (SetupException ''nmcli command failed'')" by blast
  from c h4 h6 have r3: "snd (find_wemo_aps rescan_refused)
        \<noteq> Inl (SetupException ''nmcli command failed'')" by blast
  from h1 h2 h3 h4 h5 h6 r1 r2 r3 show ?thesis by blast
qed

section \<open>Selection by name\<close>

text \<open>
  Claim C8. In the single-device modes of reset and setup, when the discovered list is
  \<open>pre @ device # post\<close>, no name in \<open>pre\<close> equals the wanted name once both are
  lower-cased and the name of \<open>device\<close> does, then \<open>device\<close> is selected whatever
  \<open>post\<close> holds, and the command goes on to reset (to set up) that device and no other.
  With the devices Lamp and lamp2 the name LAMP selects the first.
\<close>

theorem select_device_first_match:
  assumes "snd (discover_and_log_devices w None False 0) = Inr (pre @ device # post)"
      and "\<forall>x\<in>set pre. lower (dev_name x) \<noteq> lower name"
      and "lower (dev_name device) = lower name"
  shows "select_device name (pre @ device # post) = Some device
       \<and> reset_body w data wifi False (Some name) =
           bind (emit (fst (discover_and_log_devices w None False 0)))
             (\<lambda>_. bind (reset_one w data wifi device)
                (\<lambda>_. emit [Log INFO ''devices will take approximately 90 seconds to reset'' []]))
       \<and> setup_body w ssid password False (Some name) =
           bind (emit ([Log INFO (DASHES w) [],
                        Log INFO (''NOTE: If some or all devices fail to connect, try ''
                                  @ ''re-running the same command a second time!'') [],
                        Log INFO (DASHES w) []]
                       @ fst (discover_and_log_devices w None False 0)))
             (\<lambda>_. setup_one w ssid password device)"
proof -
  have sel: "select_device name (pre @ device # post) = Some device"
    using assms(2,3) by (rule select_device_first)
  obtain t where t: "discover_and_log_devices w None False 0 = (t, Inr (pre @ device # post))"
    using assms(1) by (cases "discover_and_log_devices w None False 0") simp
  show ?thesis
    using sel t
    by (simp add: reset_body_def setup_body_def prod_eq_iff fst_bind snd_bind split: sum.splits)
qed


theorem select_device_first_match_witness:
  "snd (discover_and_log_devices home None False 0) = Inr ([] @ lamp # [lamp2])
   \<and> lower (dev_name lamp) = lower ''LAMP''
   \<and> lower (dev_name lamp2) \<noteq> lower ''LAMP''
   \<and> select_device ''LAMP'' [lamp, lamp2] = Some lamp
   \<and> reset_body home True True False (Some ''LAMP'') =
       bind (emit (fst (discover_and_log_devices home None False 0)))
         (\<lambda>_. bind (reset_one home True True lamp)
            (\<lambda>_. emit [Log INFO ''devices will take approximately 90 seconds to reset'' []]))"
proof -
  have h1: "snd (discover_and_log_devices home None False 0) = Inr ([] @ lamp # [lamp2])"
    using home_discovers by simp
  have h2: "\<forall>x\<in>set []. lower (dev_name x) \<noteq> lower ''LAMP''" by simp
  have h3: "lower (dev_name lamp) = lower ''LAMP''"
    by (simp add: lamp_def lower_def lower_char_def is_upper_def)
  have h4: "lower (dev_name lamp2) \<noteq> lower ''LAMP''"
    by (simp add: lamp2_def lower_def)
  from select_device_first_match[OF h1 h2 h3, of True True] h1 h2 h3 h4
  show ?thesis by simp
qed

section \<open>Reset of all devices\<close>

text \<open>
  Claim C2. In reset-all mode, when the discovery returns \<open>N\<close> devices, the user
  confirms and every reset either returns or raises \<open>ResetException\<close>: the reset is
  attempted on each of the \<open>N\<close> devices, in the order of the discovery; the resets
  that return are those of the devices that do not fail, so there are \<open>N - M\<close> of them
  when \<open>M\<close> devices fail; the line \<open>thus skipping\<close> is logged for every device that
  fails; and the command ends without an exception.
\<close>

theorem reset_all_skips_failures:
  assumes "snd (discover_and_log_devices w None False 0) = Inr devices"
      and "devices \<noteq> []" and "confirm w"
      and "list_all (\<lambda>d. reset_or_error (reset_outcome w d (full \<or> data) (full \<or> wifi))) devices"
  shows "snd (click_wemo_reset w verbose data wifi full True name) = Inr ()
       \<and> filter is_reset (fst (click_wemo_reset w verbose data wifi full True name)) =
           map (\<lambda>d. Reset d (full \<or> data) (full \<or> wifi)
                      (returned (reset_outcome w d (full \<or> data) (full \<or> wifi)))) devices
       \<and> filter reset_done (fst (click_wemo_reset w verbose data wifi full True name)) =
           map (\<lambda>d. Reset d (full \<or> data) (full \<or> wifi) True)
             (filter (\<lambda>d. returned (reset_outcome w d (full \<or> data) (full \<or> wifi))) devices)
       \<and> length (filter reset_done (fst (click_wemo_reset w verbose data wifi full True name))) =
           length devices
           - length (filter (\<lambda>d. \<not> returned (reset_outcome w d (full \<or> data) (full \<or> wifi)))
                       devices)
       \<and> (\<forall>d\<in>set devices. \<not> returned (reset_outcome w d (full \<or> data) (full \<or> wifi)) \<longrightarrow>
             Log ERROR ''|-- thus skipping: %s'' [D d]
               \<in> set (fst (click_wemo_reset w verbose data wifi full True name)))"
proof -
  let ?data = "full \<or> data" and ?wifi = "full \<or> wifi"
  let ?run = "click_wemo_reset w verbose data wifi full True name"
  let ?ret = "\<lambda>d. returned (reset_outcome w d ?data ?wifi)"
  obtain t where t: "discover_and_log_devices w None False 0 = (t, Inr devices)"
    using assms(1) by (cases "discover_and_log_devices w None False 0") simp
  have tlog: "\<forall>e\<in>set t. is_log e" using discover_logs[of w None False 0] t by simp
  note rd = reset_devices_run[OF assms(4)]
  obtain rt where rt: "reset_devices w ?data ?wifi devices = (rt, Inr ())"
    using rd by (cases "reset_devices w ?data ?wifi devices") simp
  have body: "reset_body w ?data ?wifi True name =
      (t @ (if name \<noteq> None
            then [Log WARNING ''name %s ignored, all discovered devices will be reset'' []]
            else [])
         @ [Confirm (''Are you sure you want to reset all '' @ str_nat (length devices)
                     @ '' devices listed above?'')]
         @ rt @ [Log INFO (DASHES w) []]
         @ [Log INFO ''devices will take approximately 90 seconds to reset'' []], Inr ())"
    using t rt assms(2,3) by (simp add: reset_body_def emit_def)
  have run: "?run =
      (setup_logger w verbose @ t
         @ (if name \<noteq> None
            then [Log WARNING ''name %s ignored, all discovered devices will be reset'' []]
            else [])
         @ [Confirm (''Are you sure you want to reset all '' @ str_nat (length devices)
                     @ '' devices listed above?'')]
         @ rt @ [Log INFO (DASHES w) []]
         @ [Log INFO ''devices will take approximately 90 seconds to reset'' []], Inr ())"
    unfolding click_wemo_reset_def body by simp
  have c1: "snd ?run = Inr ()" using run by simp
  have c2: "filter is_reset (fst ?run) = map (\<lambda>d. Reset d ?data ?wifi (?ret d)) devices"
    using run rd rt filter_reset_logs[OF tlog]
          filter_reset_logs[OF setup_logger_logs[of w verbose]]
    by simp
  have c3: "filter reset_done (fst ?run) =
            map (\<lambda>d. Reset d ?data ?wifi True) (filter ?ret devices)"
    using reset_done_is_reset[of "fst ?run"] c2 filter_done_map[of ?data ?wifi ?ret devices]
    by simp
  have c4: "length (filter reset_done (fst ?run)) =
            length devices - length (filter (\<lambda>d. \<not> ?ret d) devices)"
    using c3 sum_length_filter_compl[of ?ret devices] by simp
  have c5: "\<forall>d\<in>set devices. \<not> ?ret d \<longrightarrow>
             Log ERROR ''|-- thus skipping: %s'' [D d] \<in> set (fst ?run)"
    using run rd rt by simp
  from c1 c2 c3 c4 c5 show ?thesis by blast
qed

theorem reset_all_skips_failures_witness:
  "snd (discover_and_log_devices home None False 0) = Inr [lamp, lamp2]
   \<and> [lamp, lamp2] \<noteq> [] \<and> confirm home
   \<and> list_all (\<lambda>d. reset_or_error (reset_outcome home d (True \<or> False) (True \<or> False)))
        [lamp, lamp2]
   \<and> returned (reset_outcome home lamp True True)
   \<and> \<not> returned (reset_outcome home lamp2 True True)
   \<and> snd (click_wemo_reset home 0 False False True True None) = Inr ()
   \<and> filter is_reset (fst (click_wemo_reset home 0 False False True True None)) =
       [Reset lamp True True True, Reset lamp2 True True False]
   \<and> filter reset_done (fst (click_wemo_reset home 0 False False True True None)) =
       [Reset lamp True True True]
   \<and> length (filter reset_done (fst (click_wemo_reset home 0 False False True True None))) = 2 - 1
   \<and> Log ERROR ''|-- thus skipping: %s'' [D lamp2]
       \<in> set (fst (click_wemo_reset home 0 False False True True None))"
proof -
  have h1: "snd (discover_and_log_devices home None False 0) = Inr [lamp, lamp2]"
    by (rule home_discovers)
  have h2: "[lamp, lamp2] \<noteq> []" by simp
  have h3: "confirm home" by (simp add: home_def)
  have r1: "reset_outcome home lamp True True = Inr ()" by (simp add: home_def lamp_def)
  have r2: "reset_outcome home lamp2 True True = Inl (ResetException ''reset failed'')"
    by (simp add: home_def lamp2_def)
  have h4: "list_all (\<lambda>d. reset_or_error (reset_outcome home d (True \<or> False) (True \<or> False)))
        [lamp, lamp2]" using r1 r2 by simp
  from reset_all_skips_failures[OF h1 h2 h3 h4, of 0 None] h1 h2 h3 h4 r1 r2
  show ?thesis by simp
qed

section \<open>Errors at the command boundary\<close>

text \<open>
  Claim C3. The reset command never ends with a \<open>ResetException\<close> and the setup
  command never ends with a \<open>SetupException\<close>. When the body of the \<open>try\<close>
  statement raises one (the errors of single devices in a batch are handled inside the
  loops and do not reach it), the command logs its message as a critical line, which is
  the last thing it does, and returns. This is the case when neither the all-flag nor a
  name is given, when no discovered device has the wanted name, and when the scan finds
  no access point of a device: nothing is reset, set up or asked after the error.
\<close>

theorem errors_caught_at_boundary:
  "snd (click_wemo_reset w verbose data wifi full reset_all name) \<noteq> Inl (ResetException msg)
   \<and> snd (click_wemo_setup w verbose ssid password setup_all name) \<noteq> Inl (SetupException msg)
   \<and> (reset_body w (full \<or> data) (full \<or> wifi) reset_all name = (t, Inl (ResetException msg)) \<longrightarrow>
        click_wemo_reset w verbose data wifi full reset_all name =
          (setup_logger w verbose @ t @ [Log CRITICAL msg []], Inr ()))
   \<and> (setup_body w ssid password setup_all name = (t, Inl (SetupException msg)) \<longrightarrow>
        click_wemo_setup w verbose ssid password setup_all name =
          (setup_logger w verbose @ t @ [Log CRITICAL msg []], Inr ()))
   \<and> click_wemo_reset w verbose data wifi full False None =
        (setup_logger w verbose
           @ [Log CRITICAL ''--reset-all or --name=<str> is required'' []], Inr ())
   \<and> click_wemo_setup w verbose ssid password False None =
        (setup_logger w verbose @ setup_note w
           @ [Log CRITICAL ''--setup-all or --name=<str> is required'' []], Inr ())
   \<and> (discover_and_log_devices w None False 0 = (t, Inr devices)
        \<and> select_device n devices = None \<longrightarrow>
        click_wemo_reset w verbose data wifi full False (Some n) =
          (setup_logger w verbose @ t @ [Log CRITICAL (not_found n) []], Inr ())
        \<and> click_wemo_setup w verbose ssid password False (Some n) =
          (setup_logger w verbose @ setup_note w @ t @ [Log CRITICAL (not_found n) []], Inr ()))
   \<and> (find_wemo_aps w = (t, Inr ([], current)) \<longrightarrow>
        click_wemo_setup w verbose ssid password True name =
          (setup_logger w verbose @ setup_note w @ t @ [Log CRITICAL no_aps []], Inr ()))"
proof (intro conjI impI)
  show "snd (click_wemo_reset w verbose data wifi full reset_all name) \<noteq> Inl (ResetException msg)"
    by (rule click_wemo_reset_never)
  show "snd (click_wemo_setup w verbose ssid password setup_all name) \<noteq> Inl (SetupException msg)"
    by (rule click_wemo_setup_never)
  show "click_wemo_reset w verbose data wifi full reset_all name =
          (setup_logger w verbose @ t @ [Log CRITICAL msg []], Inr ())"
    if "reset_body w (full \<or> data) (full \<or> wifi) reset_all name = (t, Inl (ResetException msg))"
    using that by (rule click_wemo_reset_caught)
  show "click_wemo_setup w verbose ssid password setup_all name =
          (setup_logger w verbose @ t @ [Log CRITICAL msg []], Inr ())"
    if "setup_body w ssid password setup_all name = (t, Inl (SetupException msg))"
    using that by (rule click_wemo_setup_caught)
  show "click_wemo_reset w verbose data wifi full False None =
        (setup_logger w verbose
           @ [Log CRITICAL ''--reset-all or --name=<str> is required'' []], Inr ())"
    by (simp add: click_wemo_reset_def reset_body_def raise_def)
  show "click_wemo_setup w verbose ssid password False None =
        (setup_logger w verbose @ setup_note w
           @ [Log CRITICAL ''--setup-all or --name=<str> is required'' []], Inr ())"
    by (simp add: click_wemo_setup_def setup_body_def setup_note_def raise_def)
  show "click_wemo_reset w verbose data wifi full False (Some n) =
          (setup_logger w verbose @ t @ [Log CRITICAL (not_found n) []], Inr ())"
    if "discover_and_log_devices w None False 0 = (t, Inr devices)
        \<and> select_device n devices = None"
    using that click_wemo_reset_caught[OF reset_body_not_found] by blast
  show "click_wemo_setup w verbose ssid password False (Some n) =
          (setup_logger w verbose @ setup_note w @ t @ [Log CRITICAL (not_found n) []], Inr ())"
    if "discover_and_log_devices w None False 0 = (t, Inr devices)
        \<and> select_device n devices = None"
    using that click_wemo_setup_caught[OF setup_body_not_found] by fastforce
  show "click_wemo_setup w verbose ssid password True name =
          (setup_logger w verbose @ setup_note w @ t @ [Log CRITICAL no_aps []], Inr ())"
    if "find_wemo_aps w = (t, Inr ([], current))"
    using that click_wemo_setup_caught[OF setup_body_no_aps] by fastforce
qed

theorem errors_caught_at_boundary_witness:
  "discover_and_log_devices home None False 0 =
     (fst (discover_and_log_devices home None False 0), Inr [lamp, lamp2])
   \<and> select_device ''Heater'' [lamp, lamp2] = None
   \<and> reset_body home (True \<or> False) (True \<or> False) False (Some ''Heater'') =
       (fst (discover_and_log_devices home None False 0),
        Inl (ResetException (not_found ''Heater'')))
   \<and> setup_body home ''HomeNet'' ''secret'' False (Some ''Heater'') =
       (setup_note home @ fst (discover_and_log_devices home None False 0),
        Inl (SetupException (not_found ''Heater'')))
   \<and> find_wemo_aps empty_house = (fst (find_wemo_aps empty_house), Inr ([], []))
   \<and> click_wemo_reset home 0 False False True False (Some ''Heater'') =
       (setup_logger home 0 @ fst (discover_and_log_devices home None False 0)
          @ [Log CRITICAL (not_found ''Heater'') []], Inr ())
   \<and> click_wemo_setup home 0 ''HomeNet'' ''secret'' False (Some ''Heater'') =
       (setup_logger home 0 @ setup_note home @ fst (discover_and_log_devices home None False 0)
          @ [Log CRITICAL (not_found ''Heater'') []], Inr ())
   \<and> click_wemo_setup empty_house 0 ''HomeNet'' ''secret'' True None =
       (setup_logger empty_house 0 @ setup_note empty_house @ fst (find_wemo_aps empty_house)
          @ [Log CRITICAL no_aps []], Inr ())"
proof -
  let ?t = "fst (discover_and_log_devices home None False 0)"
  have h1: "discover_and_log_devices home None False 0 = (?t, Inr [lamp, lamp2])"
    using home_discovers by (simp add: prod_eq_iff)
  have h2: "select_device ''Heater'' [lamp, lamp2] = None" by (rule home_no_heater)
  have h3: "reset_body home (True \<or> False) (True \<or> False) False (Some ''Heater'') =
       (?t, Inl (ResetException (not_found ''Heater'')))"
    using reset_body_not_found[OF h1 h2] by simp
  have h4: "setup_body home ''HomeNet'' ''secret'' False (Some ''Heater'') =
       (setup_note home @ ?t, Inl (SetupException (not_found ''Heater'')))"
    using setup_body_not_found[OF h1 h2] by simp
  have h5: "find_wemo_aps empty_house = (fst (find_wemo_aps empty_house), Inr ([], []))"
    using empty_house_scan by (simp add: prod_eq_iff)
  note a = errors_caught_at_boundary
             [where w=home and verbose=0 and data=False and wifi=False and full=True
                and reset_all=False and name="Some ''Heater''" and t="?t"
                and msg="not_found ''Heater''" and devices="[lamp, lamp2]" and n="''Heater''"
                and ssid="''HomeNet''" and password="''secret''" and setup_all=False]
  note b = errors_caught_at_boundary
             [where w=home and verbose=0 and ssid="''HomeNet''" and password="''secret''"
                and setup_all=False and name="Some ''Heater''"
                and t="setup_note home @ ?t" and msg="not_found ''Heater''"]
  note c = errors_caught_at_boundary
             [where w=empty_house and verbose=0 and ssid="''HomeNet''" and password="''secret''"
                and name=None and t="fst (find_wemo_aps empty_house)" and current="[]"]
  from a h1 h2 h3 have r: "click_wemo_reset home 0 False False True False (Some ''Heater'') =
       (setup_logger home 0 @ ?t @ [Log CRITICAL (not_found ''Heater'') []], Inr ())"
    by blast
  from b h4 have s: "click_wemo_setup home 0 ''HomeNet'' ''secret'' False (Some ''Heater'') =
       (setup_logger home 0 @ setup_note home @ ?t
          @ [Log CRITICAL (not_found ''Heater'') []], Inr ())"
    by simp
  from c h5 have e: "click_wemo_setup empty_house 0 ''HomeNet'' ''secret'' True None =
       (setup_logger empty_house 0 @ setup_note empty_house @ fst (find_wemo_aps empty_house)
          @ [Log CRITICAL no_aps []], Inr ())"
    by blast
  from h1 h2 h3 h4 h5 r s e show ?thesis by blast
qed

section \<open>No device discovered\<close>




section \<open>The diagnostics of the list command\<close>




end
